theory Spec2Isabelle
  imports Main "HOL-Library.Sublist"
begin

section \<open>The NAT port forwarding manager (apps/proxmox-nat/nat\_manager.py)\<close>

text \<open>
  A shallow embedding of class \<open>NATManager\<close>. The object's SQLite connection and the
  host's firewall are an explicit state record that every operation takes and returns;
  what the external commands answer (\<open>ss\<close>, \<open>iptables\<close>, \<open>sysctl\<close>, \<open>iptables-save\<close>)
  is a second, read-only record. Python integers are \<open>int\<close>, text is \<open>string\<close>
  (ASCII, as the commands print it), a raised exception is the \<open>Inl\<close> of a sum, and the
  \<open>while True\<close> loop of the allocator is a \<open>partial_function\<close> in the option monad.

  What the model fixes: \<open>ss\<close> prints the same text at every call within one operation;
  the tables are what the single connection \<open>self.conn\<close> sees, so commit and rollback
  are not told apart; integers are unbounded, as in Python, and the 64-bit range of an
  SQLite INTEGER is not modelled; \<open>save_iptables_rules\<close> swallows every failure, as its
  \<open>except Exception\<close> does.
\<close>

subsection \<open>Data\<close>

text \<open>The two keys of \<open>DEFAULT_CONFIG\<close> that the engine's logic reads.\<close>

record config =
  port_start :: int
  network_interface :: string

text \<open>
  A row of table \<open>port_mappings\<close>. Columns \<open>id\<close> (AUTOINCREMENT) and \<open>created_at\<close>
  (CURRENT\_TIMESTAMP) are filled by SQLite and read by no decision of the engine; they
  are left out. No INSERT of the program names column \<open>temporary\<close>, so it always takes
  its default 0.
\<close>

record port_mapping =
  container_ip :: string
  external_port :: int
  internal_port :: int
  protocol :: string
  temporary :: bool
  description :: "string option"

text \<open>
  A DNAT rule of chain PREROUTING in table nat, as the \<open>iptables\<close> command lines of the
  program spell it: \<open>-i\<close> interface, \<open>-p\<close> protocol, \<open>--dport\<close>, and the two parts of
  \<open>--to-destination\<close>.
\<close>

datatype rule = DNAT string string int string int

text \<open>
  The state: the two tables as the connection sees them, the live rules, the kernel's
  forwarding switch and the content of /etc/iptables/rules.v4.
\<close>

record nat_state =
  port_mappings :: "port_mapping list"
  reserved_ports :: "(int \<times> string option) list"
  nat_rules :: "rule list"
  ip_forward :: bool
  rules_v4 :: "rule list"

text \<open>
  What the host answers during one operation: the text \<open>ss -tulpn\<close> prints, which
  \<open>iptables -A\<close> calls exit non-zero, whether \<open>sysctl -w\<close> does, and whether saving the
  rules raises.
\<close>

record host =
  ss_output :: string
  append_fails :: "rule \<Rightarrow> bool"
  sysctl_fails :: bool
  save_fails :: bool

datatype command = Iptables_append rule | Sysctl_ip_forward

datatype message =
    Invalid_IP_address string
  | IP_already_has_port_mappings string
  | Internal_ports_required_in_manual_mode
  | Number_of_internal_ports_does_not_match_num_ports
  | Invalid_mode string

datatype py_error = ValueError message | CalledProcessError command

text \<open>An entry of the JSON list that \<open>import_mappings\<close> reads; the last two keys are optional.\<close>

datatype entry = Entry string int int "string option" "string option"

subsection \<open>Text helpers of Python\<close>

definition is_digit :: "char \<Rightarrow> bool" where
  "is_digit c = (48 \<le> (of_char c :: nat) \<and> (of_char c :: nat) \<le> 57)"

definition is_word :: "char \<Rightarrow> bool" where
  "is_word c =
     (is_digit c \<or> (65 \<le> (of_char c :: nat) \<and> (of_char c :: nat) \<le> 90)
      \<or> (97 \<le> (of_char c :: nat) \<and> (of_char c :: nat) \<le> 122) \<or> c = CHR ''_'')"

text \<open>The line feed that \<open>$\<close> tolerates at the end and that \<open>int()\<close> strips.\<close>

definition strip_newline :: "string \<Rightarrow> string" where
  "strip_newline s = (if s \<noteq> [] \<and> last s = CHR 0x0A then butlast s else s)"

text \<open>\<open>int(s)\<close> on a string of decimal digits.\<close>

definition py_int :: "string \<Rightarrow> int" where
  "py_int s = foldl (\<lambda>a c. 10 * a + (int (of_char c) - 48)) 0 (strip_newline s)"

text \<open>\<open>s.split(c)\<close>.\<close>

fun str_split :: "char \<Rightarrow> string \<Rightarrow> string list" where
  "str_split c [] = [[]]"
| "str_split c (x # xs) =
     (if x = c then [] # str_split c xs
      else (case str_split c xs of
              [] \<Rightarrow> [[x]]
            | w # ws \<Rightarrow> (x # w) # ws))"

text \<open>\<open>str(n)\<close> for an integer.\<close>

fun str_nat :: "nat \<Rightarrow> string" where
  "str_nat n =
     (if n < 10 then [''0123456789'' ! n]
      else str_nat (n div 10) @ [''0123456789'' ! (n mod 10)])"

declare str_nat.simps [simp del]

definition str_int :: "int \<Rightarrow> string" where
  "str_int i = (if i < 0 then CHR ''-'' # str_nat (nat (- i)) else str_nat (nat i))"

text \<open>
  \<open>re.search(lit + group, s)\<close> for a pattern that is a literal followed by one
  capturing part: the leftmost position where the literal and then the part match.
\<close>

fun re_search :: "string \<Rightarrow> (string \<Rightarrow> 'a option) \<Rightarrow> string \<Rightarrow> 'a option" where
  "re_search lit grp [] = (if lit = [] then grp [] else None)"
| "re_search lit grp (c # cs) =
     (if prefix lit (c # cs) then
        (case grp (drop (length lit) (c # cs)) of
           Some g \<Rightarrow> Some g
         | None \<Rightarrow> re_search lit grp cs)
      else re_search lit grp cs)"

text \<open>The capturing parts \<open>(\w+)\<close>, \<open>(\d+)\<close> and \<open>([^:]+):(\d+)\<close>.\<close>

definition grp_word :: "string \<Rightarrow> string option" where
  "grp_word s = (let w = takeWhile is_word s in if w = [] then None else Some w)"

definition grp_digits :: "string \<Rightarrow> string option" where
  "grp_digits s = (let d = takeWhile is_digit s in if d = [] then None else Some d)"

definition grp_destination :: "string \<Rightarrow> (string \<times> string) option" where
  "grp_destination s =
     (let a = takeWhile (\<lambda>c. c \<noteq> CHR '':'') s in
      if a = [] then None
      else (case dropWhile (\<lambda>c. c \<noteq> CHR '':'') s of
              [] \<Rightarrow> None
            | _ # r \<Rightarrow> map_option (\<lambda>d. (a, d)) (grp_digits r)))"

text \<open>The truth value of an optional list argument: \<open>None\<close> and \<open>[]\<close> are false.\<close>

definition truthy :: "'a list option \<Rightarrow> bool" where
  "truthy xs = (case xs of None \<Rightarrow> False | Some l \<Rightarrow> l \<noteq> [])"

definition the_list :: "'a list option \<Rightarrow> 'a list" where
  "the_list xs = (case xs of None \<Rightarrow> [] | Some l \<Rightarrow> l)"

subsection \<open>validate\_ip\<close>

definition octet_shape :: "string \<Rightarrow> bool" where
  "octet_shape p = (1 \<le> length p \<and> length p \<le> 3 \<and> list_all is_digit p)"

text \<open>\<open>pattern.match(ip)\<close> for \<open>^(\d{1,3}\.){3}\d{1,3}$\<close>.\<close>

definition pattern_match :: "string \<Rightarrow> bool" where
  "pattern_match ip =
     (let parts = str_split CHR ''.'' (strip_newline ip)
      in length parts = 4 \<and> list_all octet_shape parts)"

definition validate_ip :: "string \<Rightarrow> bool" where
  "validate_ip ip =
     (if \<not> pattern_match ip then False
      else list_all (\<lambda>octet. 0 \<le> py_int octet \<and> py_int octet \<le> 255) (str_split CHR ''.'' ip))"

subsection \<open>is\_port\_in\_use and assign\_ports\<close>

definition is_port_in_use :: "host \<Rightarrow> int \<Rightarrow> bool" where
  "is_port_in_use h p =
     (sublist ('':'' @ str_int p @ '' '') (ss_output h)
      \<or> sublist ('':'' @ str_int p @ [CHR 0x0A]) (ss_output h))"

text \<open>The test of the inner loop's \<open>if\<close>, on the two lists read from the database.\<close>

definition port_conflict :: "host \<Rightarrow> nat_state \<Rightarrow> int \<Rightarrow> bool" where
  "port_conflict h st p =
     (p \<in> set (map external_port (port_mappings st)) \<or> is_port_in_use h p
      \<or> p \<in> set (map fst (reserved_ports st)))"

text \<open>The inner \<open>for i in range(num_ports)\<close> with its \<open>break\<close>: the value of \<open>conflict\<close>.\<close>

definition block_conflict :: "host \<Rightarrow> nat_state \<Rightarrow> int \<Rightarrow> int \<Rightarrow> bool" where
  "block_conflict h st next_port num_ports =
     list_ex (\<lambda>i. port_conflict h st (next_port + int i)) [0..<nat num_ports]"

text \<open>The \<open>while True\<close> loop; \<open>None\<close> is the loop that never leaves.\<close>

partial_function (option) find_block :: "host \<Rightarrow> nat_state \<Rightarrow> int \<Rightarrow> int \<Rightarrow> int option" where
  [code]: "find_block h st num_ports next_port =
     (if block_conflict h st next_port num_ports
      then find_block h st num_ports (next_port + num_ports)
      else Some next_port)"

definition assign_ports :: "config \<Rightarrow> host \<Rightarrow> nat_state \<Rightarrow> int \<Rightarrow> int list option" where
  "assign_ports cfg h st num_ports =
     map_option (\<lambda>next_port. map (\<lambda>i. next_port + int i) [0..<nat num_ports])
       (find_block h st num_ports (port_start cfg))"

subsection \<open>The firewall\<close>

definition iptables_rule_exists ::
  "config \<Rightarrow> nat_state \<Rightarrow> string \<Rightarrow> int \<Rightarrow> string \<Rightarrow> int \<Rightarrow> bool" where
  "iptables_rule_exists cfg st proto ext ip intp =
     (DNAT (network_interface cfg) proto ext ip intp \<in> set (nat_rules st))"

definition save_iptables_rules :: "host \<Rightarrow> nat_state \<Rightarrow> nat_state" where
  "save_iptables_rules h st = (if save_fails h then st else st\<lparr>rules_v4 := nat_rules st\<rparr>)"

text \<open>
  The \<open>for\<close> loop of \<open>setup_iptables_rules\<close> over the zipped triples. \<open>check=True\<close>
  raises at the first \<open>iptables -A\<close> that fails; the rules added before it stay.
\<close>

fun insert_rules ::
  "config \<Rightarrow> host \<Rightarrow> string \<Rightarrow> (int \<times> int \<times> string) list \<Rightarrow> nat_state
     \<Rightarrow> (py_error + unit) \<times> nat_state" where
  "insert_rules cfg h ip [] st = (Inr (), st)"
| "insert_rules cfg h ip ((ext, intp, proto) # rest) st =
     (if \<not> iptables_rule_exists cfg st proto ext ip intp then
        (if append_fails h (DNAT (network_interface cfg) proto ext ip intp)
         then (Inl (CalledProcessError
                 (Iptables_append (DNAT (network_interface cfg) proto ext ip intp))), st)
         else insert_rules cfg h ip rest
                (st\<lparr>nat_rules :=
                      nat_rules st @ [DNAT (network_interface cfg) proto ext ip intp]\<rparr>))
      else insert_rules cfg h ip rest st)"

definition setup_iptables_rules ::
  "config \<Rightarrow> host \<Rightarrow> nat_state \<Rightarrow> string \<Rightarrow> int list \<Rightarrow> int list \<Rightarrow> string list \<Rightarrow> bool
     \<Rightarrow> (py_error + unit) \<times> nat_state" where
  "setup_iptables_rules cfg h st ip external_ports internal_ports protocols save_rules =
     (case insert_rules cfg h ip (zip external_ports (zip internal_ports protocols)) st of
        (Inl e, st1) \<Rightarrow> (Inl e, st1)
      | (Inr _, st1) \<Rightarrow>
          if sysctl_fails h then (Inl (CalledProcessError Sysctl_ip_forward), st1)
          else (Inr (),
                if save_rules then save_iptables_rules h (st1\<lparr>ip_forward := True\<rparr>)
                else st1\<lparr>ip_forward := True\<rparr>))"

subsection \<open>add\_container\<close>

definition INTERNAL_PORTS_DEFAULT :: "int list" where
  "INTERNAL_PORTS_DEFAULT = [22, 80, 443, 8080]"

definition PROTOCOLS_DEFAULT :: "string list" where
  "PROTOCOLS_DEFAULT = [''tcp'', ''tcp'', ''tcp'', ''tcp'']"

text \<open>
  ``Determine ports'': explicit external ports are taken as they are and replace
  \<open>num_ports\<close> by their number; otherwise the allocator runs.
\<close>

definition determine_ports ::
  "config \<Rightarrow> host \<Rightarrow> nat_state \<Rightarrow> int \<Rightarrow> int list option \<Rightarrow> (int list \<times> int) option" where
  "determine_ports cfg h st num_ports external_ports =
     (if truthy external_ports
      then Some (the_list external_ports, int (length (the_list external_ports)))
      else map_option (\<lambda>assigned. (assigned, num_ports)) (assign_ports cfg h st num_ports))"

text \<open>
  ``Determine internal ports and protocols''. In automatic mode slot \<open>i\<close> reads
  \<open>assigned_ports[i]\<close> for \<open>i < num_ports\<close>; lemma \<open>determine_ports_length\<close> shows the
  list has \<open>num_ports\<close> elements, so the read is never out of range.
\<close>

definition determine_internal ::
  "string \<Rightarrow> int \<Rightarrow> int list \<Rightarrow> int list option \<Rightarrow> string list option
     \<Rightarrow> py_error + (int list \<times> string list)" where
  "determine_internal mode num_ports assigned_ports internal_ports protocols =
     (if mode = ''automatic'' then
        Inr (map (\<lambda>i. if i < length INTERNAL_PORTS_DEFAULT then INTERNAL_PORTS_DEFAULT ! i
                       else assigned_ports ! i) [0..<nat num_ports],
             map (\<lambda>i. if i < length INTERNAL_PORTS_DEFAULT then PROTOCOLS_DEFAULT ! i
                       else ''tcp'') [0..<nat num_ports])
      else if mode = ''manual'' then
        (if \<not> truthy internal_ports
           then Inl (ValueError Internal_ports_required_in_manual_mode)
         else if int (length (the_list internal_ports)) \<noteq> num_ports
           then Inl (ValueError Number_of_internal_ports_does_not_match_num_ports)
         else Inr (the_list internal_ports,
                   if truthy protocols then the_list protocols
                   else replicate (nat num_ports) ''tcp''))
      else Inl (ValueError (Invalid_mode mode)))"

text \<open>The INSERT of \<open>add_container\<close> and \<open>import_mappings\<close>, one row.\<close>

definition new_row :: "string \<Rightarrow> string option \<Rightarrow> int \<times> int \<times> string \<Rightarrow> port_mapping" where
  "new_row ip desc t =
     (case t of (ext, intp, proto) \<Rightarrow>
        \<lparr>container_ip = ip, external_port = ext, internal_port = intp, protocol = proto,
         temporary = False, description = desc\<rparr>)"

definition insert_rows ::
  "string \<Rightarrow> string option \<Rightarrow> (int \<times> int \<times> string) list \<Rightarrow> nat_state \<Rightarrow> nat_state" where
  "insert_rows ip desc ts st = st\<lparr>port_mappings := port_mappings st @ map (new_row ip desc) ts\<rparr>"

text \<open>
  The rest of \<open>add_container\<close> once the external ports are known: the internal ports
  and protocols, the firewall, the database, the value returned. The result is the
  outcome (the exception raised, or the list returned) with the state left behind.
\<close>

definition bind_ports ::
  "config \<Rightarrow> host \<Rightarrow> nat_state \<Rightarrow> string \<Rightarrow> string \<Rightarrow> int \<Rightarrow> int list \<Rightarrow> int list option
     \<Rightarrow> string list option \<Rightarrow> bool \<Rightarrow> string option
     \<Rightarrow> (py_error + (int \<times> int \<times> string) list) \<times> nat_state" where
  "bind_ports cfg h st ip mode num_ports assigned_ports internal_ports protocols temp desc =
     (case determine_internal mode num_ports assigned_ports internal_ports protocols of
        Inl e \<Rightarrow> (Inl e, st)
      | Inr (internals, protocols_list) \<Rightarrow>
          (case setup_iptables_rules cfg h st ip assigned_ports internals
                  protocols_list (\<not> temp) of
             (Inl e, st1) \<Rightarrow> (Inl e, st1)
           | (Inr _, st1) \<Rightarrow>
               (Inr (zip assigned_ports (zip internals protocols_list)),
                if \<not> temp
                then insert_rows ip desc
                       (zip assigned_ports (zip internals protocols_list)) st1
                else st1)))"

text \<open>\<open>None\<close> is an allocator loop that never leaves.\<close>

definition add_container ::
  "config \<Rightarrow> host \<Rightarrow> nat_state \<Rightarrow> string \<Rightarrow> string \<Rightarrow> int \<Rightarrow> int list option \<Rightarrow> int list option
     \<Rightarrow> string list option \<Rightarrow> bool \<Rightarrow> string option
     \<Rightarrow> ((py_error + (int \<times> int \<times> string) list) \<times> nat_state) option" where
  "add_container cfg h st ip mode num_ports internal_ports external_ports protocols temp desc =
     (if \<not> validate_ip ip then Some (Inl (ValueError (Invalid_IP_address ip)), st)
      else if 0 < length (filter (\<lambda>r. container_ip r = ip) (port_mappings st))
        then Some (Inl (ValueError (IP_already_has_port_mappings ip)), st)
      else
        (case determine_ports cfg h st num_ports external_ports of
           None \<Rightarrow> None
         | Some (assigned_ports, n) \<Rightarrow>
             Some (bind_ports cfg h st ip mode n assigned_ports internal_ports protocols
                     temp desc)))"

subsection \<open>import\_mappings\<close>

fun import_loop ::
  "config \<Rightarrow> host \<Rightarrow> entry list \<Rightarrow> nat \<Rightarrow> nat_state \<Rightarrow> (py_error + nat) \<times> nat_state" where
  "import_loop cfg h [] imported st = (Inr imported, st)"
| "import_loop cfg h (Entry ip ext intp proto desc # rest) imported st =
     (if length (filter (\<lambda>r. container_ip r = ip \<and> external_port r = ext) (port_mappings st)) = 0
      then
        (case setup_iptables_rules cfg h st ip [ext] [intp]
                [case proto of None \<Rightarrow> ''tcp'' | Some p \<Rightarrow> p] True of
           (Inl e, st1) \<Rightarrow> (Inl e, st1)
         | (Inr _, st1) \<Rightarrow>
             import_loop cfg h rest (imported + 1)
               (insert_rows ip desc
                  [(ext, intp, case proto of None \<Rightarrow> ''tcp'' | Some p \<Rightarrow> p)] st1))
      else import_loop cfg h rest imported st)"

definition import_mappings ::
  "config \<Rightarrow> host \<Rightarrow> nat_state \<Rightarrow> entry list \<Rightarrow> (py_error + nat) \<times> nat_state" where
  "import_mappings cfg h st data = import_loop cfg h data 0 st"

subsection \<open>rebuild\_database\<close>

text \<open>
  One line of the \<open>iptables-save\<close> text: the three \<open>in\<close> tests, then the three searches.
  The value is \<open>(protocol, external_port, container_ip, internal_port)\<close>.
\<close>

definition parse_line :: "config \<Rightarrow> string \<Rightarrow> (string \<times> int \<times> string \<times> int) option" where
  "parse_line cfg line =
     (if sublist ''-A PREROUTING'' line \<and> sublist ''-j DNAT'' line
         \<and> sublist (''-i '' @ network_interface cfg) line
      then
        (case (re_search ''-p '' grp_word line,
               re_search ''--dport '' grp_digits line,
               re_search ''--to-destination '' grp_destination line) of
           (Some proto, Some dport, Some (dest, dest_port)) \<Rightarrow>
             Some (proto, py_int dport, dest, py_int dest_port)
         | _ \<Rightarrow> None)
      else None)"

fun rebuild_loop :: "config \<Rightarrow> string list \<Rightarrow> nat \<Rightarrow> nat_state \<Rightarrow> nat \<times> nat_state" where
  "rebuild_loop cfg [] imported st = (imported, st)"
| "rebuild_loop cfg (line # rest) imported st =
     (case parse_line cfg line of
        None \<Rightarrow> rebuild_loop cfg rest imported st
      | Some (proto, ext, ip, intp) \<Rightarrow>
          if length (filter (\<lambda>r. container_ip r = ip \<and> external_port r = ext \<and> protocol r = proto)
                       (port_mappings st)) = 0
          then rebuild_loop cfg rest (imported + 1)
                 (insert_rows ip None [(ext, intp, proto)] st)
          else rebuild_loop cfg rest imported st)"

text \<open>
  \<open>lines\<close> is \<open>result.stdout.splitlines()\<close>, the snapshot of the live rules that the one
  \<open>iptables-save\<close> call of the operation returned.
\<close>

definition rebuild_database :: "config \<Rightarrow> nat_state \<Rightarrow> string list \<Rightarrow> nat \<times> nat_state" where
  "rebuild_database cfg st lines = rebuild_loop cfg lines 0 st"

subsection \<open>Predicates of the claims\<close>

text \<open>No two rows of the store share their (external\_port, protocol) pair.\<close>

definition unique_pairs :: "nat_state \<Rightarrow> bool" where
  "unique_pairs st = distinct (map (\<lambda>r. (external_port r, protocol r)) (port_mappings st))"

text \<open>No row of the store has a reserved external port.\<close>

definition no_reserved_row :: "nat_state \<Rightarrow> bool" where
  "no_reserved_row st =
     list_all (\<lambda>r. external_port r \<notin> set (map fst (reserved_ports st))) (port_mappings st)"

subsection \<open>Concrete installations used by the examples\<close>

definition example_config :: config where
  "example_config = \<lparr>port_start = 50000, network_interface = ''vmbr0''\<rparr>"

text \<open>A host with nothing listening, on which every command succeeds.\<close>

definition quiet_host :: host where
  "quiet_host =
     \<lparr>ss_output = [], append_fails = (\<lambda>r. False), sysctl_fails = False, save_fails = False\<rparr>"

text \<open>A host on which a socket listens on port 50004.\<close>

definition busy_host :: host where
  "busy_host =
     \<lparr>ss_output = ''tcp LISTEN 0 128 0.0.0.0:50004 0.0.0.0:*'',
      append_fails = (\<lambda>r. False), sysctl_fails = False, save_fails = False\<rparr>"

text \<open>A host on which \<open>iptables -A\<close> refuses every rule for external port 50002.\<close>

definition refusing_host :: host where
  "refusing_host =
     \<lparr>ss_output = [],
      append_fails = (\<lambda>r. case r of DNAT iface proto ext ip intp \<Rightarrow> ext = 50002),
      sysctl_fails = False, save_fails = False\<rparr>"

definition empty_state :: nat_state where
  "empty_state =
     \<lparr>port_mappings = [], reserved_ports = [], nat_rules = [], ip_forward = False,
      rules_v4 = []\<rparr>"

text \<open>A store that holds external port 50000 for 10.0.0.9 and reserves port 50003.\<close>

definition busy_state :: nat_state where
  "busy_state =
     \<lparr>port_mappings =
        [\<lparr>container_ip = ''10.0.0.9'', external_port = 50000, internal_port = 22,
          protocol = ''tcp'', temporary = False, description = None\<rparr>],
      reserved_ports = [(50003, None)],
      nat_rules = [DNAT ''vmbr0'' ''tcp'' 50000 ''10.0.0.9'' 22],
      ip_forward = True,
      rules_v4 = [DNAT ''vmbr0'' ''tcp'' 50000 ''10.0.0.9'' 22]\<rparr>"

text \<open>A store that reserves port 50000 and holds no mapping.\<close>

definition reserving_state :: nat_state where
  "reserving_state =
     \<lparr>port_mappings = [], reserved_ports = [(50000, None)], nat_rules = [],
      ip_forward = False, rules_v4 = []\<rparr>"

text \<open>
  An \<open>iptables-save\<close> text: one managed rule, listed twice, and a line of another chain.
\<close>

definition example_snapshot :: "string list" where
  "example_snapshot =
     [''-A PREROUTING -i vmbr0 -p tcp -m tcp --dport 50000 -j DNAT --to-destination 10.0.0.5:22'',
      ''-A POSTROUTING -o vmbr0 -j MASQUERADE'',
      ''-A PREROUTING -i vmbr0 -p tcp -m tcp --dport 50000 -j DNAT --to-destination 10.0.0.5:22'']"

text \<open>
  An \<open>iptables-save\<close> text in which two rules redirect the same port and protocol to
  two containers.
\<close>

definition clashing_snapshot :: "string list" where
  "clashing_snapshot =
     [''-A PREROUTING -i vmbr0 -p tcp -m tcp --dport 50000 -j DNAT --to-destination 10.0.0.5:22'',
      ''-A PREROUTING -i vmbr0 -p tcp -m tcp --dport 50000 -j DNAT --to-destination 10.0.0.6:22'']"

text \<open>The state after 10.0.0.5 was given the explicit external port 50000.\<close>

definition held_state :: nat_state where
  "held_state =
     \<lparr>port_mappings =
        [\<lparr>container_ip = ''10.0.0.5'', external_port = 50000, internal_port = 22,
          protocol = ''tcp'', temporary = False, description = None\<rparr>],
      reserved_ports = [],
      nat_rules = [DNAT ''vmbr0'' ''tcp'' 50000 ''10.0.0.5'' 22],
      ip_forward = True,
      rules_v4 = [DNAT ''vmbr0'' ''tcp'' 50000 ''10.0.0.5'' 22]\<rparr>"

section \<open>Properties\<close>

subsection \<open>The allocator always leaves its loop\<close>

lemma str_nat_not_Nil: "str_nat n \<noteq> []"
  by (subst str_nat.simps) simp

lemma str_nat_length: "10 ^ k \<le> n \<Longrightarrow> k < length (str_nat n)"
proof (induction k arbitrary: n)
  case 0
  show ?case using str_nat_not_Nil [of n] by simp
next
  case (Suc k)
  from Suc.prems have big: "10 * 10 ^ k \<le> n" by simp
  have "(1::nat) \<le> 10 ^ k" by simp
  with big have ten: "\<not> n < 10" by linarith
  from big have "10 ^ k \<le> n div 10" by simp
  then have "k < length (str_nat (n div 10))" by (rule Suc.IH)
  then show ?case using ten by (subst str_nat.simps) simp
qed

text \<open>
  The text of \<open>ss\<close> is finite, so it can name only ports whose decimal spelling fits
  into it.
\<close>

lemma is_port_in_use_bound:
  assumes "is_port_in_use h p"
  shows "p < 10 ^ length (ss_output h)"
proof (rule ccontr)
  assume "\<not> p < 10 ^ length (ss_output h)"
  then have ge: "(10::int) ^ length (ss_output h) \<le> p" by simp
  have "(0::int) < 10 ^ length (ss_output h)" by simp
  with ge have pos: "0 \<le> p" by linarith
  from ge pos have "(10::nat) ^ length (ss_output h) \<le> nat p"
    by (simp add: le_nat_iff)
  then have "length (ss_output h) < length (str_nat (nat p))" by (rule str_nat_length)
  with pos have long: "length (ss_output h) < length (str_int p)" by (simp add: str_int_def)
  from assms have "length (str_int p) + 2 \<le> length (ss_output h)"
    unfolding is_port_in_use_def by (auto dest: sublist_length_le)
  with long show False by simp
qed

lemma list_bound: "\<exists>N::int. \<forall>x\<in>set xs. x < N"
proof (induction xs)
  case Nil
  show ?case by simp
next
  case (Cons a xs)
  then obtain N where "\<forall>x\<in>set xs. x < N" by blast
  then have "\<forall>x\<in>set (a # xs). x < max N (a + 1)" by auto
  then show ?case by blast
qed

lemma port_conflict_bound: "\<exists>N. \<forall>p\<ge>N. \<not> port_conflict h st p"
proof -
  obtain A where A: "\<forall>x\<in>set (map external_port (port_mappings st)). x < A"
    using list_bound by blast
  obtain R where R: "\<forall>x\<in>set (map fst (reserved_ports st)). x < R"
    using list_bound by blast
  let ?N = "max (10 ^ length (ss_output h)) (max A R)"
  have "\<not> port_conflict h st p" if "?N \<le> p" for p
  proof
    assume "port_conflict h st p"
    then consider "p \<in> set (map external_port (port_mappings st))" | "is_port_in_use h p"
      | "p \<in> set (map fst (reserved_ports st))"
      unfolding port_conflict_def by blast
    then show False
    proof cases
      case 1
      with A that show False by fastforce
    next
      case 2
      then have "p < 10 ^ length (ss_output h)" by (rule is_port_in_use_bound)
      with that show False by simp
    next
      case 3
      with R that show False by fastforce
    qed
  qed
  then show ?thesis by blast
qed

lemma block_conflict_iff:
  "block_conflict h st b n \<longleftrightarrow> (\<exists>i<nat n. port_conflict h st (b + int i))"
  by (auto simp: block_conflict_def list_ex_iff)

lemma find_block_step:
  "block_conflict h st b n \<Longrightarrow> find_block h st n b = find_block h st n (b + n)"
  by (subst find_block.simps) simp

lemma find_block_stop: "\<not> block_conflict h st b n \<Longrightarrow> find_block h st n b = Some b"
  by (subst find_block.simps) simp

text \<open>
  Well-founded induction on the distance from the candidate base to a bound above every
  conflicting port: the loop leaves at the first candidate block without a conflict.
\<close>

lemma find_block_finds:
  assumes n: "0 < n" and N: "\<forall>p\<ge>N. \<not> port_conflict h st p"
  shows "\<exists>k. find_block h st n b = Some (b + int k * n)
           \<and> \<not> block_conflict h st (b + int k * n) n
           \<and> (\<forall>j<k. block_conflict h st (b + int j * n) n)"
proof (induction "nat (N - b)" arbitrary: b rule: less_induct)
  case less
  show ?case
  proof (cases "block_conflict h st b n")
    case False
    then have "find_block h st n b = Some b" by (rule find_block_stop)
    with False show ?thesis by (intro exI [of _ 0]) simp
  next
    case True
    then obtain i where "port_conflict h st (b + int i)"
      by (auto simp: block_conflict_iff)
    with N have "b + int i < N" by (meson not_le)
    then have "b < N" by linarith
    with n have "nat (N - (b + n)) < nat (N - b)" by linarith
    from less [OF this] obtain k where k:
      "find_block h st n (b + n) = Some (b + n + int k * n)"
      "\<not> block_conflict h st (b + n + int k * n) n"
      "\<forall>j<k. block_conflict h st (b + n + int j * n) n" by blast
    have eq: "b + n + int j * n = b + int (Suc j) * n" for j by (simp add: algebra_simps)
    have "find_block h st n b = Some (b + int (Suc k) * n)"
      using find_block_step [OF True] k(1) eq [of k] by simp
    moreover have "\<not> block_conflict h st (b + int (Suc k) * n) n"
      using k(2) eq [of k] by metis
    moreover have "\<forall>j<Suc k. block_conflict h st (b + int j * n) n"
    proof (intro allI impI)
      fix j assume "j < Suc k"
      show "block_conflict h st (b + int j * n) n"
      proof (cases j)
        case 0
        with True show ?thesis by simp
      next
        case (Suc j')
        with \<open>j < Suc k\<close> have "j' < k" by simp
        with k(3) have "block_conflict h st (b + n + int j' * n) n" by blast
        then show ?thesis using eq [of j'] Suc by metis
      qed
    qed
    ultimately show ?thesis by blast
  qed
qed

lemma assign_ports_nonpositive: "num_ports \<le> 0 \<Longrightarrow> assign_ports cfg h st num_ports = Some []"
  unfolding assign_ports_def
  by (subst find_block.simps) (simp add: block_conflict_def)

lemma assign_ports_total: "\<exists>ps. assign_ports cfg h st num_ports = Some ps"
proof (cases "0 < num_ports")
  case True
  obtain N where "\<forall>p\<ge>N. \<not> port_conflict h st p" using port_conflict_bound by blast
  from find_block_finds [OF True this, of "port_start cfg"] show ?thesis
    by (auto simp: assign_ports_def)
next
  case False
  then show ?thesis by (simp add: assign_ports_nonpositive)
qed

lemma assign_ports_length: "assign_ports cfg h st num_ports = Some ps \<Longrightarrow> length ps = nat num_ports"
  by (auto simp: assign_ports_def)

lemma assign_ports_no_conflict:
  assumes "assign_ports cfg h st num_ports = Some ps" and "p \<in> set ps"
  shows "\<not> port_conflict h st p"
proof (cases "0 < num_ports")
  case True
  obtain N where "\<forall>p\<ge>N. \<not> port_conflict h st p" using port_conflict_bound by blast
  from find_block_finds [OF True this, of "port_start cfg"] obtain k where k:
    "find_block h st num_ports (port_start cfg) = Some (port_start cfg + int k * num_ports)"
    "\<not> block_conflict h st (port_start cfg + int k * num_ports) num_ports" by blast
  from assms(1) k(1) have "ps = map (\<lambda>i. port_start cfg + int k * num_ports + int i) [0..<nat num_ports]"
    by (simp add: assign_ports_def)
  with assms(2) obtain i where "i < nat num_ports" "p = port_start cfg + int k * num_ports + int i"
    by auto
  with k(2) show ?thesis by (auto simp: block_conflict_iff)
next
  case False
  with assms show ?thesis by (simp add: assign_ports_nonpositive)
qed

lemma assign_ports_distinct: "assign_ports cfg h st num_ports = Some ps \<Longrightarrow> distinct ps"
  by (auto simp: assign_ports_def distinct_map inj_on_def)

subsection \<open>Evaluating the examples\<close>

lemma block_conflict_2:
  "block_conflict h st b 2 = (port_conflict h st b \<or> port_conflict h st (b + 1))"
  by (simp add: block_conflict_def upt_rec)

lemma str_int_50004: "str_int 50004 = ''50004''"
  by (simp add: str_int_def str_nat.simps)

lemma str_int_50006: "str_int 50006 = ''50006''"
  by (simp add: str_int_def str_nat.simps)

lemma str_int_50007: "str_int 50007 = ''50007''"
  by (simp add: str_int_def str_nat.simps)

lemma busy_conflict_50000: "block_conflict busy_host busy_state 50000 2"
  by (simp add: block_conflict_2 port_conflict_def busy_state_def)

lemma busy_conflict_50002: "block_conflict busy_host busy_state 50002 2"
  by (simp add: block_conflict_2 port_conflict_def busy_state_def)

lemma busy_conflict_50004: "block_conflict busy_host busy_state 50004 2"
  by (simp add: block_conflict_2 port_conflict_def is_port_in_use_def busy_host_def
      str_int_50004 sublist_code)

lemma busy_free_50006: "\<not> block_conflict busy_host busy_state 50006 2"
  by (simp add: block_conflict_2 port_conflict_def is_port_in_use_def busy_host_def
      busy_state_def str_int_50006 str_int_50007 sublist_code)

lemma busy_assign_ports: "assign_ports example_config busy_host busy_state 2 = Some [50006, 50007]"
proof -
  have "find_block busy_host busy_state 2 50000 = find_block busy_host busy_state 2 50002"
    using find_block_step [OF busy_conflict_50000] by simp
  also have "\<dots> = find_block busy_host busy_state 2 50004"
    using find_block_step [OF busy_conflict_50002] by simp
  also have "\<dots> = find_block busy_host busy_state 2 50006"
    using find_block_step [OF busy_conflict_50004] by simp
  also have "\<dots> = Some 50006"
    using find_block_stop [OF busy_free_50006] by simp
  finally show ?thesis
    by (simp add: assign_ports_def example_config_def upt_rec)
qed

lemma quiet_host_not_in_use: "\<not> is_port_in_use quiet_host p"
  by (simp add: is_port_in_use_def quiet_host_def)

lemma valid_10_0_0_5: "validate_ip ''10.0.0.5''"
  by code_simp

lemma valid_10_0_0_6: "validate_ip ''10.0.0.6''"
  by code_simp

subsection \<open>How add\_container splits\<close>

lemma add_container_allocated:
  assumes "validate_ip ip" and "filter (\<lambda>r. container_ip r = ip) (port_mappings st) = []"
    and "\<not> truthy external_ports" and "assign_ports cfg h st num_ports = Some ps"
  shows "add_container cfg h st ip mode num_ports internal_ports external_ports protocols temp desc
           = Some (bind_ports cfg h st ip mode num_ports ps internal_ports protocols temp desc)"
  using assms by (simp add: add_container_def determine_ports_def)

lemma add_container_explicit:
  assumes "validate_ip ip" and "filter (\<lambda>r. container_ip r = ip) (port_mappings st) = []"
    and "truthy external_ports"
  shows "add_container cfg h st ip mode num_ports internal_ports external_ports protocols temp desc
           = Some (bind_ports cfg h st ip mode (int (length (the_list external_ports)))
                     (the_list external_ports) internal_ports protocols temp desc)"
  using assms by (simp add: add_container_def determine_ports_def)

subsection \<open>The allocator's result\<close>

text \<open>
  Claim C3. For every \<open>num_ports > 0\<close> and every state (the assigned ports of the store,
  the reserved ports, the sockets that \<open>ss\<close> lists), \<open>assign_ports\<close> returns: its result
  is the block of exactly \<open>num_ports\<close> consecutive ports, in increasing order, that
  starts at \<open>port_start + k * num_ports\<close> for some \<open>k\<close>; no port of the block is assigned,
  in use or reserved; and each earlier candidate block \<open>j < k\<close> holds a port that is.
\<close>

theorem assign_ports_first_free_block:
  assumes "0 < num_ports"
  shows "\<exists>k. assign_ports cfg h st num_ports
               = Some (map (\<lambda>i. port_start cfg + int k * num_ports + int i) [0..<nat num_ports])
           \<and> length (map (\<lambda>i. port_start cfg + int k * num_ports + int i) [0..<nat num_ports])
               = nat num_ports
           \<and> (\<forall>i<nat num_ports. \<not> port_conflict h st (port_start cfg + int k * num_ports + int i))
           \<and> (\<forall>j<k. \<exists>i<nat num_ports.
                  port_conflict h st (port_start cfg + int j * num_ports + int i))"
proof -
  obtain N where "\<forall>p\<ge>N. \<not> port_conflict h st p" using port_conflict_bound by blast
  from find_block_finds [OF assms this, of "port_start cfg"] obtain k where k:
    "find_block h st num_ports (port_start cfg) = Some (port_start cfg + int k * num_ports)"
    "\<not> block_conflict h st (port_start cfg + int k * num_ports) num_ports"
    "\<forall>j<k. block_conflict h st (port_start cfg + int j * num_ports) num_ports" by blast
  show ?thesis
    using k by (intro exI [of _ k]) (simp add: assign_ports_def block_conflict_iff)
qed

text \<open>
  On the busy example the blocks at 50000 (assigned), 50002 (50003 is reserved) and
  50004 (a socket listens) are rejected and the block at 50006 is returned.
\<close>

theorem assign_ports_first_free_block_witness:
  "(0::int) < 2
   \<and> assign_ports example_config busy_host busy_state 2 = Some [50006, 50007]
   \<and> (\<exists>k. assign_ports example_config busy_host busy_state 2
              = Some (map (\<lambda>i. port_start example_config + int k * 2 + int i) [0..<nat 2])
          \<and> length (map (\<lambda>i. port_start example_config + int k * 2 + int i) [0..<nat 2]) = nat 2
          \<and> (\<forall>i<nat 2. \<not> port_conflict busy_host busy_state
                            (port_start example_config + int k * 2 + int i))
          \<and> (\<forall>j<k. \<exists>i<nat 2. port_conflict busy_host busy_state
                            (port_start example_config + int j * 2 + int i)))"
proof -
  have pos: "(0::int) < 2" by simp
  note inst = assign_ports_first_free_block [OF pos, of example_config busy_host busy_state]
  from pos busy_assign_ports inst show ?thesis by (intro conjI)
qed

text \<open>
  Claim C6, as amended. For every \<open>num_ports \<le> 0\<close> the allocator raises nothing: the
  inner loop has no iteration, no conflict is found, and the empty list is returned.
\<close>

theorem assign_ports_nonpositive_empty:
  "num_ports \<le> 0 \<Longrightarrow> assign_ports cfg h st num_ports = Some []"
  by (rule assign_ports_nonpositive)

theorem assign_ports_nonpositive_empty_witness:
  "(- 3::int) \<le> 0 \<and> assign_ports example_config busy_host busy_state (- 3) = Some []"
proof -
  have neg: "(- 3::int) \<le> 0" by simp
  from neg assign_ports_nonpositive_empty [OF neg] show ?thesis by (intro conjI)
qed

text \<open>
  Claim C6 as it is written fails: with \<open>num_ports = 0\<close> the allocator returns the empty
  list, and \<open>add_container\<close> in automatic mode returns the empty list of triples instead
  of raising.
\<close>

theorem assign_ports_zero_counterexample:
  "assign_ports example_config quiet_host empty_state 0 = Some []
   \<and> map_option fst
       (add_container example_config quiet_host empty_state ''10.0.0.5'' ''automatic'' 0
          None None None False None) = Some (Inr [])"
proof -
  have a: "assign_ports example_config quiet_host empty_state 0 = Some []"
    by (simp add: assign_ports_nonpositive)
  have b: "bind_ports example_config quiet_host empty_state ''10.0.0.5'' ''automatic'' 0 []
             None None False None = (Inr [], empty_state\<lparr>ip_forward := True\<rparr>)"
    by code_simp
  have "add_container example_config quiet_host empty_state ''10.0.0.5'' ''automatic'' 0
          None None None False None
        = Some (bind_ports example_config quiet_host empty_state ''10.0.0.5'' ''automatic'' 0 []
             None None False None)"
    by (rule add_container_allocated [OF valid_10_0_0_5 _ _ a])
      (simp_all add: empty_state_def truthy_def)
  with a b show ?thesis by simp
qed

subsection \<open>The firewall loop\<close>

lemma insert_rules_frame:
  "insert_rules cfg h ip ts st = (out, st1) \<Longrightarrow>
     port_mappings st1 = port_mappings st \<and> reserved_ports st1 = reserved_ports st
     \<and> rules_v4 st1 = rules_v4 st \<and> ip_forward st1 = ip_forward st"
  by (induction cfg h ip ts st rule: insert_rules.induct) (auto split: if_splits)

lemma insert_rules_applied:
  "insert_rules cfg h ip ts st = (Inr u, st1) \<Longrightarrow>
     set (nat_rules st) \<subseteq> set (nat_rules st1)
     \<and> (\<forall>(ext, intp, proto)\<in>set ts.
           DNAT (network_interface cfg) proto ext ip intp \<in> set (nat_rules st1))"
  by (induction cfg h ip ts st rule: insert_rules.induct)
    (auto simp: iptables_rule_exists_def split: if_splits)

lemma insert_rules_needed:
  "insert_rules cfg h ip ts st = (Inr u, st1) \<Longrightarrow>
     \<forall>(ext, intp, proto)\<in>set ts.
        DNAT (network_interface cfg) proto ext ip intp \<in> set (nat_rules st)
        \<or> \<not> append_fails h (DNAT (network_interface cfg) proto ext ip intp)"
  by (induction cfg h ip ts st rule: insert_rules.induct)
    (auto simp: iptables_rule_exists_def split: if_splits)

lemma insert_rules_succeeds:
  "\<forall>r. \<not> append_fails h r \<Longrightarrow> \<exists>st1. insert_rules cfg h ip ts st = (Inr (), st1)"
  by (induction cfg h ip ts st rule: insert_rules.induct) auto

lemma insert_rules_raises:
  "insert_rules cfg h ip ts st = (Inl e, st1) \<Longrightarrow>
     \<exists>r. e = CalledProcessError (Iptables_append r) \<and> append_fails h r"
  by (induction cfg h ip ts st rule: insert_rules.induct) (auto split: if_splits)

text \<open>What \<open>setup_iptables_rules\<close> does, by the outcome of its loop.\<close>

lemma setup_iptables_rules_error:
  assumes "setup_iptables_rules cfg h st ip es is ps save = (Inl e, st1)"
  shows "port_mappings st1 = port_mappings st \<and> reserved_ports st1 = reserved_ports st
         \<and> rules_v4 st1 = rules_v4 st"
proof (cases "insert_rules cfg h ip (zip es (zip is ps)) st")
  case (Pair out st0)
  from insert_rules_frame [OF Pair] assms Pair show ?thesis
    by (auto simp: setup_iptables_rules_def split: sum.splits if_splits)
qed

lemma setup_iptables_rules_ok:
  assumes "setup_iptables_rules cfg h st ip es is ps save = (Inr u, st1)"
  shows "port_mappings st1 = port_mappings st \<and> reserved_ports st1 = reserved_ports st
         \<and> ip_forward st1
         \<and> (\<not> save \<longrightarrow> rules_v4 st1 = rules_v4 st)
         \<and> (\<exists>st0. insert_rules cfg h ip (zip es (zip is ps)) st = (Inr (), st0)
                \<and> nat_rules st1 = nat_rules st0)"
proof (cases "insert_rules cfg h ip (zip es (zip is ps)) st")
  case (Pair out st0)
  from insert_rules_frame [OF Pair] assms Pair show ?thesis
    by (auto simp: setup_iptables_rules_def save_iptables_rules_def split: sum.splits if_splits)
qed

lemma setup_iptables_rules_save_irrelevant:
  "fst (setup_iptables_rules cfg h st ip es is ps save)
     = fst (setup_iptables_rules cfg h st ip es is ps save')
   \<and> nat_rules (snd (setup_iptables_rules cfg h st ip es is ps save))
     = nat_rules (snd (setup_iptables_rules cfg h st ip es is ps save'))"
  by (cases "insert_rules cfg h ip (zip es (zip is ps)) st")
    (auto simp: setup_iptables_rules_def save_iptables_rules_def split: sum.splits)

subsection \<open>bind\_ports and add\_container, by outcome\<close>

lemma bind_ports_Inr:
  assumes "bind_ports cfg h st ip mode n ps ints protos temp desc = (Inr ts, st')"
  shows "\<exists>is pl u st1.
           determine_internal mode n ps ints protos = Inr (is, pl)
           \<and> setup_iptables_rules cfg h st ip ps is pl (\<not> temp) = (Inr u, st1)
           \<and> ts = zip ps (zip is pl)
           \<and> st' = (if \<not> temp then insert_rows ip desc ts st1 else st1)"
  using assms
  by (auto simp: bind_ports_def split: sum.splits prod.splits if_splits)

lemma bind_ports_Inl:
  assumes "bind_ports cfg h st ip mode n ps ints protos temp desc = (Inl e, st')"
  shows "port_mappings st' = port_mappings st \<and> reserved_ports st' = reserved_ports st
         \<and> rules_v4 st' = rules_v4 st"
  using assms
  by (auto simp: bind_ports_def split: sum.splits prod.splits dest: setup_iptables_rules_error)

lemma bind_ports_needed:
  assumes "bind_ports cfg h st ip mode n ps ints protos temp desc = (Inr ts, st')"
  shows "\<forall>(ext, intp, proto)\<in>set ts.
           DNAT (network_interface cfg) proto ext ip intp \<in> set (nat_rules st)
           \<or> \<not> append_fails h (DNAT (network_interface cfg) proto ext ip intp)"
proof -
  from bind_ports_Inr [OF assms] obtain "is" pl u st1 where
    s: "setup_iptables_rules cfg h st ip ps is pl (\<not> temp) = (Inr u, st1)"
    and ts: "ts = zip ps (zip is pl)" by blast
  from setup_iptables_rules_ok [OF s] obtain st0 where
    "insert_rules cfg h ip (zip ps (zip is pl)) st = (Inr (), st0)" by blast
  from insert_rules_needed [OF this] ts show ?thesis by simp
qed

lemma bind_ports_applied:
  assumes "bind_ports cfg h st ip mode n ps ints protos temp desc = (Inr ts, st')"
  shows "ip_forward st' \<and> set (nat_rules st) \<subseteq> set (nat_rules st')
         \<and> (\<forall>(ext, intp, proto)\<in>set ts.
               DNAT (network_interface cfg) proto ext ip intp \<in> set (nat_rules st'))"
proof -
  from bind_ports_Inr [OF assms] obtain "is" pl u st1 where
    s: "setup_iptables_rules cfg h st ip ps is pl (\<not> temp) = (Inr u, st1)"
    and ts: "ts = zip ps (zip is pl)"
    and st': "st' = (if \<not> temp then insert_rows ip desc ts st1 else st1)" by blast
  from setup_iptables_rules_ok [OF s] obtain st0 where
    fw: "ip_forward st1" and
    i: "insert_rules cfg h ip (zip ps (zip is pl)) st = (Inr (), st0)" and
    r: "nat_rules st1 = nat_rules st0" by blast
  from st' have "nat_rules st' = nat_rules st1" "ip_forward st' = ip_forward st1"
    by (simp_all add: insert_rows_def)
  with insert_rules_applied [OF i] fw r ts show ?thesis by simp
qed

lemma bind_ports_store:
  assumes "bind_ports cfg h st ip mode n ps ints protos temp desc = (Inr ts, st')"
  shows "reserved_ports st' = reserved_ports st
         \<and> port_mappings st' = (if temp then port_mappings st
                                 else port_mappings st @ map (new_row ip desc) ts)
         \<and> (temp \<longrightarrow> rules_v4 st' = rules_v4 st)"
proof -
  from bind_ports_Inr [OF assms] obtain "is" pl u st1 where
    s: "setup_iptables_rules cfg h st ip ps is pl (\<not> temp) = (Inr u, st1)"
    and st': "st' = (if \<not> temp then insert_rows ip desc ts st1 else st1)" by blast
  from setup_iptables_rules_ok [OF s] st' show ?thesis
    by (auto simp: insert_rows_def)
qed

text \<open>The flag \<open>temporary\<close> changes neither the outcome nor the live rules.\<close>

lemma bind_ports_temporary_irrelevant:
  "fst (bind_ports cfg h st ip mode n ps ints protos temp desc)
     = fst (bind_ports cfg h st ip mode n ps ints protos temp' desc)
   \<and> nat_rules (snd (bind_ports cfg h st ip mode n ps ints protos temp desc))
     = nat_rules (snd (bind_ports cfg h st ip mode n ps ints protos temp' desc))"
proof (cases "determine_internal mode n ps ints protos")
  case (Inl e)
  then show ?thesis by (simp add: bind_ports_def)
next
  case (Inr a)
  obtain "is" pl where a: "a = (is, pl)" by (cases a)
  from setup_iptables_rules_save_irrelevant [of cfg h st ip ps "is" pl "\<not> temp" "\<not> temp'"]
  show ?thesis using Inr a
    by (cases "setup_iptables_rules cfg h st ip ps is pl (\<not> temp)";
        cases "setup_iptables_rules cfg h st ip ps is pl (\<not> temp')")
      (auto simp: bind_ports_def insert_rows_def split: sum.splits)
qed

lemma add_container_total:
  "\<exists>r. add_container cfg h st ip mode n ints exts protos temp desc = Some r"
  using assign_ports_total [of cfg h st n]
  by (auto simp: add_container_def determine_ports_def)

lemma add_container_cases:
  assumes "add_container cfg h st ip mode n ints exts protos temp desc = Some (out, st')"
  obtains m where "out = Inl (ValueError m)" and "st' = st"
  | ps n' where "bind_ports cfg h st ip mode n' ps ints protos temp desc = (out, st')"
      and "validate_ip ip" and "filter (\<lambda>r. container_ip r = ip) (port_mappings st) = []"
      and "if truthy exts then ps = the_list exts \<and> n' = int (length ps)
           else assign_ports cfg h st n = Some ps \<and> n' = n"
  using assms
  by (auto simp: add_container_def determine_ports_def split: if_splits option.splits)

subsection \<open>Temporary mappings\<close>

text \<open>
  Claim C9. When \<open>add_container\<close> succeeds with \<open>temporary = True\<close>, tables
  \<open>port_mappings\<close> and \<open>reserved_ports\<close> are unchanged and so is the saved rule file (the
  save step is skipped); IP forwarding is on and the rule of every returned triple is
  live; and the list returned and the live rules are those of the same call with
  \<open>temporary = False\<close>, which differs only by inserting one row per triple.
\<close>

theorem add_container_temporary:
  assumes "add_container cfg h st ip mode n ints exts protos True desc = Some (Inr ts, st')"
  shows "port_mappings st' = port_mappings st
         \<and> reserved_ports st' = reserved_ports st
         \<and> rules_v4 st' = rules_v4 st
         \<and> ip_forward st'
         \<and> (\<forall>(ext, intp, proto)\<in>set ts.
               DNAT (network_interface cfg) proto ext ip intp \<in> set (nat_rules st'))
         \<and> (\<exists>st''. add_container cfg h st ip mode n ints exts protos False desc
                       = Some (Inr ts, st'')
                 \<and> nat_rules st'' = nat_rules st'
                 \<and> port_mappings st'' = port_mappings st @ map (new_row ip desc) ts)"
proof (rule add_container_cases [OF assms])
  fix m assume "Inr ts = Inl (ValueError m)"
  then show ?thesis by simp
next
  fix ps n'
  assume b: "bind_ports cfg h st ip mode n' ps ints protos True desc = (Inr ts, st')"
    and v: "validate_ip ip" "filter (\<lambda>r. container_ip r = ip) (port_mappings st) = []"
    and d: "if truthy exts then ps = the_list exts \<and> n' = int (length ps)
            else assign_ports cfg h st n = Some ps \<and> n' = n"
  obtain out'' st'' where
    b': "bind_ports cfg h st ip mode n' ps ints protos False desc = (out'', st'')"
    by (cases "bind_ports cfg h st ip mode n' ps ints protos False desc")
  from bind_ports_temporary_irrelevant [of cfg h st ip mode n' ps ints protos True desc False] b b'
  have same: "out'' = Inr ts" "nat_rules st'' = nat_rules st'" by simp_all
  have "add_container cfg h st ip mode n ints exts protos False desc
          = Some (bind_ports cfg h st ip mode n' ps ints protos False desc)"
  proof (cases "truthy exts")
    case True
    with d add_container_explicit [OF v True] show ?thesis by simp
  next
    case False
    with d add_container_allocated [OF v False] show ?thesis by simp
  qed
  with b' same have call: "add_container cfg h st ip mode n ints exts protos False desc
                             = Some (Inr ts, st'')" by simp
  from b' same have "bind_ports cfg h st ip mode n' ps ints protos False desc = (Inr ts, st'')"
    by simp
  from bind_ports_store [OF this]
  have rows: "port_mappings st'' = port_mappings st @ map (new_row ip desc) ts" by simp
  from bind_ports_store [OF b] bind_ports_applied [OF b] call same(2) rows
  show ?thesis by simp
qed

lemma quiet_assign_ports:
  "assign_ports example_config quiet_host empty_state 6
     = Some [50000, 50001, 50002, 50003, 50004, 50005]"
proof -
  have "\<not> block_conflict quiet_host empty_state 50000 6"
    by (simp add: block_conflict_iff port_conflict_def quiet_host_not_in_use empty_state_def)
  from find_block_stop [OF this] show ?thesis
    by (simp add: assign_ports_def example_config_def upt_rec)
qed

lemma quiet_bind_ports_temporary:
  "bind_ports example_config quiet_host empty_state ''10.0.0.5'' ''automatic'' 6
       [50000, 50001, 50002, 50003, 50004, 50005] None None True None
     = (Inr [(50000, 22, ''tcp''), (50001, 80, ''tcp''), (50002, 443, ''tcp''),
             (50003, 8080, ''tcp''), (50004, 50004, ''tcp''), (50005, 50005, ''tcp'')],
        empty_state\<lparr>nat_rules := [DNAT ''vmbr0'' ''tcp'' 50000 ''10.0.0.5'' 22,
                                    DNAT ''vmbr0'' ''tcp'' 50001 ''10.0.0.5'' 80,
                                    DNAT ''vmbr0'' ''tcp'' 50002 ''10.0.0.5'' 443,
                                    DNAT ''vmbr0'' ''tcp'' 50003 ''10.0.0.5'' 8080,
                                    DNAT ''vmbr0'' ''tcp'' 50004 ''10.0.0.5'' 50004,
                                    DNAT ''vmbr0'' ''tcp'' 50005 ''10.0.0.5'' 50005],
                     ip_forward := True\<rparr>)"
  by code_simp

lemma quiet_add_container_temporary:
  "add_container example_config quiet_host empty_state ''10.0.0.5'' ''automatic'' 6
       None None None True None
     = Some (Inr [(50000, 22, ''tcp''), (50001, 80, ''tcp''), (50002, 443, ''tcp''),
                  (50003, 8080, ''tcp''), (50004, 50004, ''tcp''), (50005, 50005, ''tcp'')],
        empty_state\<lparr>nat_rules := [DNAT ''vmbr0'' ''tcp'' 50000 ''10.0.0.5'' 22,
                                    DNAT ''vmbr0'' ''tcp'' 50001 ''10.0.0.5'' 80,
                                    DNAT ''vmbr0'' ''tcp'' 50002 ''10.0.0.5'' 443,
                                    DNAT ''vmbr0'' ''tcp'' 50003 ''10.0.0.5'' 8080,
                                    DNAT ''vmbr0'' ''tcp'' 50004 ''10.0.0.5'' 50004,
                                    DNAT ''vmbr0'' ''tcp'' 50005 ''10.0.0.5'' 50005],
                     ip_forward := True\<rparr>)"
  unfolding quiet_bind_ports_temporary [symmetric]
  by (rule add_container_allocated [OF valid_10_0_0_5 _ _ quiet_assign_ports])
    (simp_all add: empty_state_def truthy_def)

theorem add_container_temporary_witness:
  "add_container example_config quiet_host empty_state ''10.0.0.5'' ''automatic'' 6
       None None None True None
     = Some (Inr [(50000, 22, ''tcp''), (50001, 80, ''tcp''), (50002, 443, ''tcp''),
                  (50003, 8080, ''tcp''), (50004, 50004, ''tcp''), (50005, 50005, ''tcp'')],
        empty_state\<lparr>nat_rules := [DNAT ''vmbr0'' ''tcp'' 50000 ''10.0.0.5'' 22,
                                    DNAT ''vmbr0'' ''tcp'' 50001 ''10.0.0.5'' 80,
                                    DNAT ''vmbr0'' ''tcp'' 50002 ''10.0.0.5'' 443,
                                    DNAT ''vmbr0'' ''tcp'' 50003 ''10.0.0.5'' 8080,
                                    DNAT ''vmbr0'' ''tcp'' 50004 ''10.0.0.5'' 50004,
                                    DNAT ''vmbr0'' ''tcp'' 50005 ''10.0.0.5'' 50005],
                     ip_forward := True\<rparr>)
   \<and> (\<exists>st''. add_container example_config quiet_host empty_state ''10.0.0.5'' ''automatic'' 6
                  None None None False None
                = Some (Inr [(50000, 22, ''tcp''), (50001, 80, ''tcp''), (50002, 443, ''tcp''),
                             (50003, 8080, ''tcp''), (50004, 50004, ''tcp''),
                             (50005, 50005, ''tcp'')], st'')
            \<and> length (port_mappings st'') = 6)"
proof -
  from add_container_temporary [OF quiet_add_container_temporary]
  obtain st'' where
    "add_container example_config quiet_host empty_state ''10.0.0.5'' ''automatic'' 6
         None None None False None
       = Some (Inr [(50000, 22, ''tcp''), (50001, 80, ''tcp''), (50002, 443, ''tcp''),
                    (50003, 8080, ''tcp''), (50004, 50004, ''tcp''), (50005, 50005, ''tcp'')],
               st'')"
    "port_mappings st'' = port_mappings empty_state
        @ map (new_row ''10.0.0.5'' None)
            [(50000, 22, ''tcp''), (50001, 80, ''tcp''), (50002, 443, ''tcp''),
             (50003, 8080, ''tcp''), (50004, 50004, ''tcp''), (50005, 50005, ''tcp'')]"
    by blast
  with quiet_add_container_temporary show ?thesis by (auto simp: empty_state_def)
qed

subsection \<open>Automatic mode\<close>

lemma bind_ports_succeeds:
  assumes "determine_internal mode n ps ints protos = Inr (is, pl)"
    and "\<forall>r. \<not> append_fails h r" and "\<not> sysctl_fails h"
  shows "fst (bind_ports cfg h st ip mode n ps ints protos temp desc) = Inr (zip ps (zip is pl))"
proof -
  from insert_rules_succeeds [OF assms(2)] obtain st1 where
    "insert_rules cfg h ip (zip ps (zip is pl)) st = (Inr (), st1)" by blast
  with assms(1,3) show ?thesis
    by (simp add: bind_ports_def setup_iptables_rules_def)
qed

text \<open>
  In automatic mode every protocol is tcp and slot \<open>i\<close> gets the \<open>i\<close>-th well-known port
  while there is one, the external port of the slot afterwards.
\<close>

lemma determine_internal_automatic:
  "determine_internal ''automatic'' n ps ints protos
     = Inr (map (\<lambda>i. if i < 4 then [22, 80, 443, 8080] ! i else ps ! i) [0..<nat n],
            replicate (nat n) ''tcp'')"
proof -
  have len: "length INTERNAL_PORTS_DEFAULT = 4" by (simp add: INTERNAL_PORTS_DEFAULT_def)
  have p: "(if i < 4 then PROTOCOLS_DEFAULT ! i else ''tcp'') = ''tcp''" for i :: nat
    by (cases "i < 4") (auto simp: PROTOCOLS_DEFAULT_def nth_Cons')
  show ?thesis
    unfolding determine_internal_def len
    by (simp add: p map_replicate_const INTERNAL_PORTS_DEFAULT_def)
qed

text \<open>
  Claim C4. With base port 50000, an empty store, no reserved port, none of the ports
  50000 to 50005 in use and a firewall that accepts the commands, \<open>add_container\<close> for
  10.0.0.5 in automatic mode with six ports and no explicit external ports returns the
  six triples of the scenario, in this order.
\<close>

theorem add_container_automatic_scenario:
  assumes "port_start cfg = 50000" and "port_mappings st = []" and "reserved_ports st = []"
    and "\<forall>i<6. \<not> is_port_in_use h (50000 + int i)"
    and "\<forall>r. \<not> append_fails h r" and "\<not> sysctl_fails h" and "\<not> truthy exts"
  shows "map_option fst
           (add_container cfg h st ''10.0.0.5'' ''automatic'' 6 ints exts protos temp desc)
         = Some (Inr [(50000, 22, ''tcp''), (50001, 80, ''tcp''), (50002, 443, ''tcp''),
                      (50003, 8080, ''tcp''), (50004, 50004, ''tcp''), (50005, 50005, ''tcp'')])"
proof -
  have "\<not> block_conflict h st 50000 6"
    using assms(2,3,4) by (simp add: block_conflict_iff port_conflict_def)
  from find_block_stop [OF this] assms(1)
  have a: "assign_ports cfg h st 6 = Some [50000, 50001, 50002, 50003, 50004, 50005]"
    by (simp add: assign_ports_def upt_rec)
  have d: "determine_internal ''automatic'' 6 [50000, 50001, 50002, 50003, 50004, 50005]
             ints protos
           = Inr ([22, 80, 443, 8080, 50004, 50005],
                  [''tcp'', ''tcp'', ''tcp'', ''tcp'', ''tcp'', ''tcp''])"
    by (simp add: determine_internal_automatic upt_rec eval_nat_numeral)
  have "add_container cfg h st ''10.0.0.5'' ''automatic'' 6 ints exts protos temp desc
          = Some (bind_ports cfg h st ''10.0.0.5'' ''automatic'' 6
                    [50000, 50001, 50002, 50003, 50004, 50005] ints protos temp desc)"
    by (rule add_container_allocated [OF valid_10_0_0_5 _ assms(7) a]) (simp add: assms(2))
  with bind_ports_succeeds [OF d assms(5,6), of cfg st "''10.0.0.5''" temp desc]
  show ?thesis by simp
qed

theorem add_container_automatic_scenario_witness:
  "port_start example_config = 50000 \<and> port_mappings empty_state = []
   \<and> reserved_ports empty_state = []
   \<and> map_option fst
       (add_container example_config quiet_host empty_state ''10.0.0.5'' ''automatic'' 6
          None None None False None)
     = Some (Inr [(50000, 22, ''tcp''), (50001, 80, ''tcp''), (50002, 443, ''tcp''),
                  (50003, 8080, ''tcp''), (50004, 50004, ''tcp''), (50005, 50005, ''tcp'')])"
proof -
  have 1: "port_start example_config = 50000" by (simp add: example_config_def)
  have 2: "port_mappings empty_state = []" by (simp add: empty_state_def)
  have 3: "reserved_ports empty_state = []" by (simp add: empty_state_def)
  have 4: "\<forall>i<6. \<not> is_port_in_use quiet_host (50000 + int i)"
    by (simp add: quiet_host_not_in_use)
  have 5: "\<forall>r. \<not> append_fails quiet_host r" by (simp add: quiet_host_def)
  have 6: "\<not> sysctl_fails quiet_host" by (simp add: quiet_host_def)
  have 7: "\<not> truthy (None :: int list option)" by (simp add: truthy_def)
  from 1 2 3 add_container_automatic_scenario [OF 1 2 3 4 5 6 7, of None None False None]
  show ?thesis by (intro conjI)
qed

subsection \<open>Manual mode\<close>

lemma determine_ports_length:
  "determine_ports cfg h st n exts = Some (ps, n') \<Longrightarrow> length ps = nat n'"
  by (auto simp: determine_ports_def assign_ports_length split: if_splits)

lemma add_container_determined:
  assumes "validate_ip ip" and "filter (\<lambda>r. container_ip r = ip) (port_mappings st) = []"
    and "determine_ports cfg h st n exts = Some (ps, n')"
  shows "add_container cfg h st ip mode n ints exts protos temp desc
           = Some (bind_ports cfg h st ip mode n' ps ints protos temp desc)"
  using assms by (simp add: add_container_def)

lemma insert_rules_length:
  "insert_rules cfg h ip ts st = (out, st1) \<Longrightarrow>
     length (nat_rules st1) \<le> length (nat_rules st) + length ts"
  by (induction cfg h ip ts st rule: insert_rules.induct) (auto split: if_splits)

text \<open>
  The one count that manual mode checks: a wrong number of internal ports raises
  ValueError before anything is changed.
\<close>

lemma add_container_manual_internal_mismatch:
  assumes "validate_ip ip" and "filter (\<lambda>r. container_ip r = ip) (port_mappings st) = []"
    and "determine_ports cfg h st n exts = Some (ps, n')"
    and "int (length (the_list ints)) \<noteq> n'"
  shows "\<exists>m. add_container cfg h st ip ''manual'' n ints exts protos temp desc
               = Some (Inl (ValueError m), st)"
  using assms(4)
  by (simp add: add_container_determined [OF assms(1,2,3)] bind_ports_def determine_internal_def)

text \<open>
  Claim C10, as amended. In manual mode let \<open>n'\<close> be \<open>num_ports\<close> after the ports are
  determined and let the internal ports be \<open>n'\<close> many. On a firewall that accepts the
  commands \<open>add_container\<close> raises nothing, whatever the length of the protocols list:
  the three lists are zipped. With a non-empty protocols list the triples returned are
  \<open>min n' (length protocols)\<close> many; an absent or empty list is replaced by tcp for
  every slot and the triples are \<open>n'\<close> many. One row per returned triple is inserted,
  none when \<open>temporary\<close> is set; every returned triple's rule is live, and no more rules
  than triples were added.
\<close>

theorem add_container_manual_truncates:
  assumes "validate_ip ip" and "filter (\<lambda>r. container_ip r = ip) (port_mappings st) = []"
    and "determine_ports cfg h st n exts = Some (ps, n')"
    and "ints \<noteq> []" and "int (length ints) = n'"
    and "\<forall>r. \<not> append_fails h r" and "\<not> sysctl_fails h"
    and "ts = zip ps (zip ints (if truthy protos then the_list protos
                                else replicate (nat n') ''tcp''))"
  shows "\<exists>st'. add_container cfg h st ip ''manual'' n (Some ints) exts protos temp desc
                 = Some (Inr ts, st')
           \<and> length ts = (if truthy protos then min (nat n') (length (the_list protos))
                          else nat n')
           \<and> port_mappings st'
               = (if temp then port_mappings st
                  else port_mappings st @ map (new_row ip desc) ts)
           \<and> (\<forall>(ext, intp, proto)\<in>set ts.
                 DNAT (network_interface cfg) proto ext ip intp \<in> set (nat_rules st'))
           \<and> length (nat_rules st') \<le> length (nat_rules st) + length ts"
proof -
  let ?pl = "if truthy protos then the_list protos else replicate (nat n') ''tcp''"
  have d: "determine_internal ''manual'' n' ps (Some ints) protos = Inr (ints, ?pl)"
    using assms(4,5) by (simp add: determine_internal_def truthy_def the_list_def)
  obtain out st' where
    b: "bind_ports cfg h st ip ''manual'' n' ps (Some ints) protos temp desc = (out, st')"
    by (cases "bind_ports cfg h st ip ''manual'' n' ps (Some ints) protos temp desc")
  from bind_ports_succeeds [OF d assms(6,7), of cfg st ip temp desc] b assms(8)
  have out: "out = Inr ts" by simp
  with b have b': "bind_ports cfg h st ip ''manual'' n' ps (Some ints) protos temp desc
                     = (Inr ts, st')" by simp
  have len: "length ts = (if truthy protos then min (nat n') (length (the_list protos))
                          else nat n')"
    using determine_ports_length [OF assms(3)] assms(5,8) by auto
  from bind_ports_Inr [OF b'] d obtain u st1 where
    s: "setup_iptables_rules cfg h st ip ps ints ?pl (\<not> temp) = (Inr u, st1)"
    and st': "st' = (if \<not> temp then insert_rows ip desc ts st1 else st1)" by auto
  from setup_iptables_rules_ok [OF s] obtain st0 where
    i: "insert_rules cfg h ip (zip ps (zip ints ?pl)) st = (Inr (), st0)"
    and "nat_rules st1 = nat_rules st0" by blast
  with st' insert_rules_length [OF i] assms(8)
  have few: "length (nat_rules st') \<le> length (nat_rules st) + length ts"
    by (simp add: insert_rows_def)
  from add_container_determined [OF assms(1,2,3)] b'
  have "add_container cfg h st ip ''manual'' n (Some ints) exts protos temp desc
          = Some (Inr ts, st')" by simp
  with len few bind_ports_store [OF b'] bind_ports_applied [OF b'] show ?thesis by simp
qed

lemma quiet_assign_ports_3:
  "assign_ports example_config quiet_host empty_state 3 = Some [50000, 50001, 50002]"
proof -
  have "\<not> block_conflict quiet_host empty_state 50000 3"
    by (simp add: block_conflict_iff port_conflict_def quiet_host_not_in_use empty_state_def)
  from find_block_stop [OF this] show ?thesis
    by (simp add: assign_ports_def example_config_def upt_rec)
qed

lemma quiet_determine_ports_3:
  "determine_ports example_config quiet_host empty_state 3 None
     = Some ([50000, 50001, 50002], 3)"
  by (simp add: determine_ports_def truthy_def quiet_assign_ports_3)

text \<open>
  Three ports requested with three internal ports and two protocols: two triples and
  two rows.
\<close>

theorem add_container_manual_truncates_witness:
  "validate_ip ''10.0.0.5''
   \<and> determine_ports example_config quiet_host empty_state 3 None
       = Some ([50000, 50001, 50002], 3)
   \<and> (\<exists>st'. add_container example_config quiet_host empty_state ''10.0.0.5'' ''manual'' 3
                 (Some [22, 80, 443]) None (Some [''tcp'', ''udp'']) False None
               = Some (Inr [(50000, 22, ''tcp''), (50001, 80, ''udp'')], st')
           \<and> length (port_mappings st') = 2)"
proof -
  have 2: "filter (\<lambda>r. container_ip r = ''10.0.0.5'') (port_mappings empty_state) = []"
    by (simp add: empty_state_def)
  have 4: "[22, 80, 443] \<noteq> ([] :: int list)" by simp
  have 5: "int (length [22, 80, 443 :: int]) = 3" by simp
  have 6: "\<forall>r. \<not> append_fails quiet_host r" by (simp add: quiet_host_def)
  have 7: "\<not> sysctl_fails quiet_host" by (simp add: quiet_host_def)
  have 8: "[(50000, 22, ''tcp''), (50001, 80, ''udp'')]
             = zip [50000, 50001, 50002]
                 (zip [22, 80, 443]
                    (if truthy (Some [''tcp'', ''udp'']) then the_list (Some [''tcp'', ''udp''])
                     else replicate (nat 3) ''tcp''))"
    by (simp add: truthy_def the_list_def)
  from add_container_manual_truncates
    [OF valid_10_0_0_5 2 quiet_determine_ports_3 4 5 6 7 8, where temp = False and desc = None]
  obtain st' where
    "add_container example_config quiet_host empty_state ''10.0.0.5'' ''manual'' 3
         (Some [22, 80, 443]) None (Some [''tcp'', ''udp'']) False None
       = Some (Inr [(50000, 22, ''tcp''), (50001, 80, ''udp'')], st')"
    "port_mappings st' = (if False then port_mappings empty_state
        else port_mappings empty_state
          @ map (new_row ''10.0.0.5'' None) [(50000, 22, ''tcp''), (50001, 80, ''udp'')])"
    by blast
  then have "add_container example_config quiet_host empty_state ''10.0.0.5'' ''manual'' 3
         (Some [22, 80, 443]) None (Some [''tcp'', ''udp'']) False None
       = Some (Inr [(50000, 22, ''tcp''), (50001, 80, ''udp'')], st')
     \<and> length (port_mappings st') = 2"
    by (simp add: empty_state_def)
  with valid_10_0_0_5 quiet_determine_ports_3 show ?thesis by blast
qed

text \<open>
  Claim C10 as it is written fails in two ways. For the empty protocols list: \<open>[]\<close> is
  false in \<open>protocols if protocols else ['tcp'] * num_ports\<close>, so every slot gets tcp
  and three triples are returned, not \<open>min 3 0\<close>. And with \<open>temporary = True\<close>: two
  triples are returned for two protocols, but no row is inserted.
\<close>

theorem add_container_manual_empty_protocols_counterexample:
  "map_option fst
     (add_container example_config quiet_host empty_state ''10.0.0.5'' ''manual'' 3
        (Some [22, 80, 443]) None (Some []) False None)
   = Some (Inr [(50000, 22, ''tcp''), (50001, 80, ''tcp''), (50002, 443, ''tcp'')])
   \<and> length [(50000 :: int, 22 :: int, ''tcp''), (50001, 80, ''tcp''), (50002, 443, ''tcp'')]
       \<noteq> min (nat 3) (length ([] :: string list))
   \<and> map_option (\<lambda>r. (fst r, port_mappings (snd r)))
       (add_container example_config quiet_host empty_state ''10.0.0.5'' ''manual'' 3
          (Some [22, 80, 443]) None (Some [''tcp'', ''udp'']) True None)
     = Some (Inr [(50000, 22, ''tcp''), (50001, 80, ''udp'')], [])
   \<and> length ([] :: port_mapping list) \<noteq> min (nat 3) (length [''tcp'', ''udp''])"
proof -
  have "fst (bind_ports example_config quiet_host empty_state ''10.0.0.5'' ''manual'' 3
               [50000, 50001, 50002] (Some [22, 80, 443]) (Some []) False None)
        = Inr [(50000, 22, ''tcp''), (50001, 80, ''tcp''), (50002, 443, ''tcp'')]"
    by code_simp
  moreover have "add_container example_config quiet_host empty_state ''10.0.0.5'' ''manual'' 3
                   (Some [22, 80, 443]) None (Some []) False None
                 = Some (bind_ports example_config quiet_host empty_state ''10.0.0.5'' ''manual'' 3
                           [50000, 50001, 50002] (Some [22, 80, 443]) (Some []) False None)"
    by (rule add_container_determined [OF valid_10_0_0_5 _ quiet_determine_ports_3])
      (simp add: empty_state_def)
  ultimately have 1: "map_option fst
     (add_container example_config quiet_host empty_state ''10.0.0.5'' ''manual'' 3
        (Some [22, 80, 443]) None (Some []) False None)
   = Some (Inr [(50000, 22, ''tcp''), (50001, 80, ''tcp''), (50002, 443, ''tcp'')])"
    by simp
  have "(fst (bind_ports example_config quiet_host empty_state ''10.0.0.5'' ''manual'' 3
               [50000, 50001, 50002] (Some [22, 80, 443]) (Some [''tcp'', ''udp'']) True None),
         port_mappings (snd (bind_ports example_config quiet_host empty_state ''10.0.0.5''
               ''manual'' 3 [50000, 50001, 50002] (Some [22, 80, 443])
               (Some [''tcp'', ''udp'']) True None)))
        = (Inr [(50000, 22, ''tcp''), (50001, 80, ''udp'')], [])"
    by code_simp
  moreover have "add_container example_config quiet_host empty_state ''10.0.0.5'' ''manual'' 3
                   (Some [22, 80, 443]) None (Some [''tcp'', ''udp'']) True None
                 = Some (bind_ports example_config quiet_host empty_state ''10.0.0.5'' ''manual'' 3
                           [50000, 50001, 50002] (Some [22, 80, 443])
                           (Some [''tcp'', ''udp'']) True None)"
    by (rule add_container_determined [OF valid_10_0_0_5 _ quiet_determine_ports_3])
      (simp add: empty_state_def)
  ultimately have 2: "map_option (\<lambda>r. (fst r, port_mappings (snd r)))
       (add_container example_config quiet_host empty_state ''10.0.0.5'' ''manual'' 3
          (Some [22, 80, 443]) None (Some [''tcp'', ''udp'']) True None)
     = Some (Inr [(50000, 22, ''tcp''), (50001, 80, ''udp'')], [])"
    by simp
  from 1 2 show ?thesis by simp
qed

text \<open>
  Claim C7 at its failing input. Manual mode with \<open>num_ports = 3\<close>, three internal ports
  and two protocols raises nothing: two rules are added, two rows are inserted and two
  triples are returned. Only the number of internal ports is compared with \<open>num_ports\<close>.
\<close>

theorem add_container_protocols_count_unchecked:
  "add_container example_config quiet_host empty_state ''10.0.0.5'' ''manual'' 3
      (Some [22, 80, 443]) None (Some [''tcp'', ''udp'']) False None
   = Some (Inr [(50000, 22, ''tcp''), (50001, 80, ''udp'')],
        \<lparr>port_mappings =
           [\<lparr>container_ip = ''10.0.0.5'', external_port = 50000, internal_port = 22,
             protocol = ''tcp'', temporary = False, description = None\<rparr>,
            \<lparr>container_ip = ''10.0.0.5'', external_port = 50001, internal_port = 80,
             protocol = ''udp'', temporary = False, description = None\<rparr>],
         reserved_ports = [],
         nat_rules = [DNAT ''vmbr0'' ''tcp'' 50000 ''10.0.0.5'' 22,
                      DNAT ''vmbr0'' ''udp'' 50001 ''10.0.0.5'' 80],
         ip_forward = True,
         rules_v4 = [DNAT ''vmbr0'' ''tcp'' 50000 ''10.0.0.5'' 22,
                     DNAT ''vmbr0'' ''udp'' 50001 ''10.0.0.5'' 80]\<rparr>)"
proof -
  have "bind_ports example_config quiet_host empty_state ''10.0.0.5'' ''manual'' 3
               [50000, 50001, 50002] (Some [22, 80, 443]) (Some [''tcp'', ''udp'']) False None
        = (Inr [(50000, 22, ''tcp''), (50001, 80, ''udp'')],
        \<lparr>port_mappings =
           [\<lparr>container_ip = ''10.0.0.5'', external_port = 50000, internal_port = 22,
             protocol = ''tcp'', temporary = False, description = None\<rparr>,
            \<lparr>container_ip = ''10.0.0.5'', external_port = 50001, internal_port = 80,
             protocol = ''udp'', temporary = False, description = None\<rparr>],
         reserved_ports = [],
         nat_rules = [DNAT ''vmbr0'' ''tcp'' 50000 ''10.0.0.5'' 22,
                      DNAT ''vmbr0'' ''udp'' 50001 ''10.0.0.5'' 80],
         ip_forward = True,
         rules_v4 = [DNAT ''vmbr0'' ''tcp'' 50000 ''10.0.0.5'' 22,
                     DNAT ''vmbr0'' ''udp'' 50001 ''10.0.0.5'' 80]\<rparr>)"
    by code_simp
  moreover have "add_container example_config quiet_host empty_state ''10.0.0.5'' ''manual'' 3
                   (Some [22, 80, 443]) None (Some [''tcp'', ''udp'']) False None
                 = Some (bind_ports example_config quiet_host empty_state ''10.0.0.5'' ''manual'' 3
                           [50000, 50001, 50002] (Some [22, 80, 443]) (Some [''tcp'', ''udp''])
                           False None)"
    by (rule add_container_determined [OF valid_10_0_0_5 _ quiet_determine_ports_3])
      (simp add: empty_state_def)
  ultimately show ?thesis by simp
qed

subsection \<open>Failure of a firewall insertion\<close>

text \<open>
  The loop raises as soon as the batch holds a rule that is not live and that
  \<open>iptables -A\<close> refuses: at that triple, or at an earlier refused one.
\<close>

lemma insert_rules_fails:
  assumes "(ext, intp, proto) \<in> set ts"
    and "DNAT (network_interface cfg) proto ext ip intp \<notin> set (nat_rules st)"
    and "append_fails h (DNAT (network_interface cfg) proto ext ip intp)"
  shows "\<exists>r st1. insert_rules cfg h ip ts st = (Inl (CalledProcessError (Iptables_append r)), st1)
           \<and> append_fails h r"
  using assms
proof (induction cfg h ip ts st rule: insert_rules.induct)
  case (1 cfg h ip st)
  then show ?case by simp
next
  case (2 cfg h ip ext0 intp0 proto0 rest st)
  let ?hd = "DNAT (network_interface cfg) proto0 ext0 ip intp0"
  let ?bad = "DNAT (network_interface cfg) proto ext ip intp"
  show ?case
  proof (cases "iptables_rule_exists cfg st proto0 ext0 ip intp0")
    case True
    then have live: "?hd \<in> set (nat_rules st)" by (simp add: iptables_rule_exists_def)
    with "2.prems"(2) have "?bad \<noteq> ?hd" by metis
    with "2.prems"(1) have mem: "(ext, intp, proto) \<in> set rest" by auto
    have "\<exists>r st1. insert_rules cfg h ip rest st
                     = (Inl (CalledProcessError (Iptables_append r)), st1) \<and> append_fails h r"
      using "2.IH"(2) True mem "2.prems"(2,3) by blast
    with True show ?thesis by simp
  next
    case False
    show ?thesis
    proof (cases "append_fails h ?hd")
      case True
      with False show ?thesis by simp
    next
      case ok: False
      with "2.prems"(3) have ne: "?bad \<noteq> ?hd" by metis
      with "2.prems"(1) have mem: "(ext, intp, proto) \<in> set rest" by auto
      from ne "2.prems"(2)
      have "?bad \<notin> set (nat_rules (st\<lparr>nat_rules := nat_rules st @ [?hd]\<rparr>))" by simp
      then have "\<exists>r st1. insert_rules cfg h ip rest (st\<lparr>nat_rules := nat_rules st @ [?hd]\<rparr>)
                     = (Inl (CalledProcessError (Iptables_append r)), st1) \<and> append_fails h r"
        using "2.IH"(1) False ok mem "2.prems"(3) by blast
      with False ok show ?thesis by simp
    qed
  qed
qed

lemma add_container_error_store:
  assumes "add_container cfg h st ip mode n ints exts protos temp desc = Some (Inl e, st')"
  shows "port_mappings st' = port_mappings st \<and> reserved_ports st' = reserved_ports st
         \<and> rules_v4 st' = rules_v4 st"
proof (rule add_container_cases [OF assms])
  fix m assume "st' = st"
  then show ?thesis by simp
next
  fix ps n' assume "bind_ports cfg h st ip mode n' ps ints protos temp desc = (Inl e, st')"
  then show ?thesis by (rule bind_ports_Inl)
qed

text \<open>
  Claim C2. Take any call of \<open>add_container\<close> that reaches the firewall (valid address,
  no row for the owner, ports and internal ports determined). If an insertion of its
  batch fails, that is, the batch of triples holds a rule that is not live and that
  \<open>iptables -A\<close> refuses, then the call raises the CalledProcessError of a refused
  \<open>iptables -A\<close>, and tables \<open>port_mappings\<close> and \<open>reserved_ports\<close> and the saved rule
  file are exactly what they were before the call: no row is inserted for the owner.
\<close>

theorem add_container_insertion_failure_aborts:
  assumes "validate_ip ip" and "filter (\<lambda>r. container_ip r = ip) (port_mappings st) = []"
    and "determine_ports cfg h st n exts = Some (ps, n')"
    and "determine_internal mode n' ps ints protos = Inr (is, pl)"
    and "(ext, intp, proto) \<in> set (zip ps (zip is pl))"
    and "DNAT (network_interface cfg) proto ext ip intp \<notin> set (nat_rules st)"
    and "append_fails h (DNAT (network_interface cfg) proto ext ip intp)"
  shows "\<exists>r st'. add_container cfg h st ip mode n ints exts protos temp desc
                    = Some (Inl (CalledProcessError (Iptables_append r)), st')
           \<and> append_fails h r
           \<and> port_mappings st' = port_mappings st
           \<and> reserved_ports st' = reserved_ports st
           \<and> rules_v4 st' = rules_v4 st"
proof -
  from insert_rules_fails [OF assms(5,6,7)] obtain r st1 where
    i: "insert_rules cfg h ip (zip ps (zip is pl)) st
          = (Inl (CalledProcessError (Iptables_append r)), st1)"
    and r: "append_fails h r" by blast
  from i assms(4)
  have "bind_ports cfg h st ip mode n' ps ints protos temp desc
          = (Inl (CalledProcessError (Iptables_append r)), st1)"
    by (simp add: bind_ports_def setup_iptables_rules_def)
  with add_container_determined [OF assms(1,2,3)]
  have call: "add_container cfg h st ip mode n ints exts protos temp desc
                = Some (Inl (CalledProcessError (Iptables_append r)), st1)" by simp
  from add_container_error_store [OF call] call r show ?thesis by blast
qed

lemma refusing_assign_ports:
  "assign_ports example_config refusing_host empty_state 6
     = Some [50000, 50001, 50002, 50003, 50004, 50005]"
proof -
  have "\<not> block_conflict refusing_host empty_state 50000 6"
    by (simp add: block_conflict_iff port_conflict_def is_port_in_use_def refusing_host_def
        empty_state_def)
  from find_block_stop [OF this] show ?thesis
    by (simp add: assign_ports_def example_config_def upt_rec)
qed

lemma refusing_bind_ports:
  "bind_ports example_config refusing_host empty_state ''10.0.0.5'' ''automatic'' 6
       [50000, 50001, 50002, 50003, 50004, 50005] None None False None
     = (Inl (CalledProcessError (Iptables_append (DNAT ''vmbr0'' ''tcp'' 50002 ''10.0.0.5'' 443))),
        empty_state\<lparr>nat_rules := [DNAT ''vmbr0'' ''tcp'' 50000 ''10.0.0.5'' 22,
                                    DNAT ''vmbr0'' ''tcp'' 50001 ''10.0.0.5'' 80]\<rparr>)"
  by code_simp

lemma refusing_add_container:
  "add_container example_config refusing_host empty_state ''10.0.0.5'' ''automatic'' 6
       None None None False None
     = Some (Inl (CalledProcessError
                    (Iptables_append (DNAT ''vmbr0'' ''tcp'' 50002 ''10.0.0.5'' 443))),
             empty_state\<lparr>nat_rules := [DNAT ''vmbr0'' ''tcp'' 50000 ''10.0.0.5'' 22,
                                         DNAT ''vmbr0'' ''tcp'' 50001 ''10.0.0.5'' 80]\<rparr>)"
  unfolding refusing_bind_ports [symmetric]
  by (rule add_container_allocated [OF valid_10_0_0_5 _ _ refusing_assign_ports])
    (simp_all add: empty_state_def truthy_def)

lemma refusing_determine_ports:
  "determine_ports example_config refusing_host empty_state 6 None
     = Some ([50000, 50001, 50002, 50003, 50004, 50005], 6)"
  by (simp add: determine_ports_def truthy_def refusing_assign_ports)

lemma automatic_internal_6:
  "determine_internal ''automatic'' 6 [50000, 50001, 50002, 50003, 50004, 50005] None None
     = Inr ([22, 80, 443, 8080, 50004, 50005],
            [''tcp'', ''tcp'', ''tcp'', ''tcp'', ''tcp'', ''tcp''])"
  by (simp add: determine_internal_automatic upt_rec eval_nat_numeral)

text \<open>
  On the host that refuses the rule for port 50002, the third insertion of the batch
  fails: the call raises for that rule, two rules are live, and the store is still
  empty.
\<close>

theorem add_container_insertion_failure_aborts_witness:
  "validate_ip ''10.0.0.5''
   \<and> (50002, 443, ''tcp'')
        \<in> set (zip [50000, 50001, 50002, 50003, 50004, 50005]
                 (zip [22, 80, 443, 8080, 50004, 50005]
                    [''tcp'', ''tcp'', ''tcp'', ''tcp'', ''tcp'', ''tcp'']))
   \<and> append_fails refusing_host (DNAT ''vmbr0'' ''tcp'' 50002 ''10.0.0.5'' 443)
   \<and> add_container example_config refusing_host empty_state ''10.0.0.5'' ''automatic'' 6
        None None None False None
      = Some (Inl (CalledProcessError
                    (Iptables_append (DNAT ''vmbr0'' ''tcp'' 50002 ''10.0.0.5'' 443))),
             empty_state\<lparr>nat_rules := [DNAT ''vmbr0'' ''tcp'' 50000 ''10.0.0.5'' 22,
                                         DNAT ''vmbr0'' ''tcp'' 50001 ''10.0.0.5'' 80]\<rparr>)
   \<and> port_mappings
        (empty_state\<lparr>nat_rules := [DNAT ''vmbr0'' ''tcp'' 50000 ''10.0.0.5'' 22,
                                    DNAT ''vmbr0'' ''tcp'' 50001 ''10.0.0.5'' 80]\<rparr>)
       = port_mappings empty_state"
proof -
  have 2: "filter (\<lambda>r. container_ip r = ''10.0.0.5'') (port_mappings empty_state) = []"
    by (simp add: empty_state_def)
  have 5: "(50002, 443, ''tcp'')
        \<in> set (zip [50000, 50001, 50002, 50003, 50004, 50005]
                 (zip [22, 80, 443, 8080, 50004, 50005]
                    [''tcp'', ''tcp'', ''tcp'', ''tcp'', ''tcp'', ''tcp'']))"
    by simp
  have 6: "DNAT (network_interface example_config) ''tcp'' 50002 ''10.0.0.5'' 443
             \<notin> set (nat_rules empty_state)"
    by (simp add: empty_state_def)
  have 7: "append_fails refusing_host
             (DNAT (network_interface example_config) ''tcp'' 50002 ''10.0.0.5'' 443)"
    by (simp add: refusing_host_def)
  from add_container_insertion_failure_aborts
    [OF valid_10_0_0_5 2 refusing_determine_ports automatic_internal_6 5 6 7, of False None]
  obtain r st' where
    "add_container example_config refusing_host empty_state ''10.0.0.5'' ''automatic'' 6
        None None None False None
      = Some (Inl (CalledProcessError (Iptables_append r)), st')"
    "port_mappings st' = port_mappings empty_state" by blast
  with refusing_add_container
  have "port_mappings
        (empty_state\<lparr>nat_rules := [DNAT ''vmbr0'' ''tcp'' 50000 ''10.0.0.5'' 22,
                                    DNAT ''vmbr0'' ''tcp'' 50001 ''10.0.0.5'' 80]\<rparr>)
       = port_mappings empty_state" by simp
  moreover from 7 have "append_fails refusing_host (DNAT ''vmbr0'' ''tcp'' 50002 ''10.0.0.5'' 443)"
    by (simp add: example_config_def)
  ultimately show ?thesis using valid_10_0_0_5 5 refusing_add_container by (intro conjI)
qed

subsection \<open>rebuild\_database\<close>

text \<open>The three ways one line of the snapshot is handled.\<close>

lemma rebuild_loop_skip:
  "parse_line cfg a = None \<Longrightarrow> rebuild_loop cfg (a # ls) k st = rebuild_loop cfg ls k st"
  by simp

lemma rebuild_loop_old:
  "parse_line cfg a = Some (proto, ext, ip, intp) \<Longrightarrow>
   filter (\<lambda>r. container_ip r = ip \<and> external_port r = ext \<and> protocol r = proto)
     (port_mappings st) \<noteq> [] \<Longrightarrow>
   rebuild_loop cfg (a # ls) k st = rebuild_loop cfg ls k st"
  by simp

lemma rebuild_loop_new:
  "parse_line cfg a = Some (proto, ext, ip, intp) \<Longrightarrow>
   filter (\<lambda>r. container_ip r = ip \<and> external_port r = ext \<and> protocol r = proto)
     (port_mappings st) = [] \<Longrightarrow>
   rebuild_loop cfg (a # ls) k st
     = rebuild_loop cfg ls (k + 1) (insert_rows ip None [(ext, intp, proto)] st)"
  by simp

lemma rebuild_loop_keeps_rows:
  "x \<in> set (port_mappings st) \<Longrightarrow> x \<in> set (port_mappings (snd (rebuild_loop cfg ls k st)))"
proof (induction ls arbitrary: k st)
  case Nil
  then show ?case by simp
next
  case (Cons a ls)
  show ?case
  proof (cases "parse_line cfg a")
    case None
    with Cons show ?thesis by (simp only: rebuild_loop_skip)
  next
    case (Some key)
    obtain proto ext ip intp where "key = (proto, ext, ip, intp)" by (cases key)
    with Some have p: "parse_line cfg a = Some (proto, ext, ip, intp)" by simp
    show ?thesis
    proof (cases "filter (\<lambda>r. container_ip r = ip \<and> external_port r = ext \<and> protocol r = proto)
                    (port_mappings st) = []")
      case True
      from Cons.prems have "x \<in> set (port_mappings (insert_rows ip None [(ext, intp, proto)] st))"
        by (simp add: insert_rows_def)
      from Cons.IH [OF this] show ?thesis
        by (simp only: rebuild_loop_new [OF p True])
    next
      case False
      from Cons.IH [OF Cons.prems] show ?thesis
        by (simp only: rebuild_loop_old [OF p False])
    qed
  qed
qed

lemma rebuild_loop_covers:
  assumes "l \<in> set ls" and p: "parse_line cfg l = Some (proto, ext, ip, intp)"
  shows "filter (\<lambda>r. container_ip r = ip \<and> external_port r = ext \<and> protocol r = proto)
           (port_mappings (snd (rebuild_loop cfg ls k st))) \<noteq> []"
  using assms(1)
proof (induction ls arbitrary: k st)
  case Nil
  then show ?case by simp
next
  case (Cons a ls)
  let ?P = "\<lambda>r. container_ip r = ip \<and> external_port r = ext \<and> protocol r = proto"
  show ?case
  proof (cases "l = a")
    case True
    with p have pa: "parse_line cfg a = Some (proto, ext, ip, intp)" by simp
    show ?thesis
    proof (cases "filter ?P (port_mappings st) = []")
      case False
      then obtain x where x: "x \<in> set (port_mappings st)" "?P x"
        by (auto simp: filter_empty_conv)
      from rebuild_loop_keeps_rows [OF x(1)] x(2) show ?thesis
        by (auto simp only: filter_empty_conv)
    next
      case empty: True
      have "new_row ip None (ext, intp, proto)
              \<in> set (port_mappings (insert_rows ip None [(ext, intp, proto)] st))"
        by (simp add: insert_rows_def)
      from rebuild_loop_keeps_rows [OF this, of cfg ls "k + 1"]
      have "new_row ip None (ext, intp, proto)
              \<in> set (port_mappings (snd (rebuild_loop cfg (a # ls) k st)))"
        by (simp only: rebuild_loop_new [OF pa empty])
      moreover have "?P (new_row ip None (ext, intp, proto))" by (simp add: new_row_def)
      ultimately show ?thesis by (auto simp only: filter_empty_conv)
    qed
  next
    case False
    with Cons.prems have l: "l \<in> set ls" by simp
    show ?thesis
    proof (cases "parse_line cfg a")
      case None
      show ?thesis unfolding rebuild_loop_skip [OF None] by (rule Cons.IH [OF l])
    next
      case (Some key)
      obtain proto' ext' ip' intp' where "key = (proto', ext', ip', intp')" by (cases key)
      with Some have pa: "parse_line cfg a = Some (proto', ext', ip', intp')" by simp
      show ?thesis
      proof (cases "filter (\<lambda>r. container_ip r = ip' \<and> external_port r = ext' \<and> protocol r = proto')
                      (port_mappings st) = []")
        case True
        show ?thesis unfolding rebuild_loop_new [OF pa True] by (rule Cons.IH [OF l])
      next
        case False
        show ?thesis unfolding rebuild_loop_old [OF pa False] by (rule Cons.IH [OF l])
      qed
    qed
  qed
qed

lemma rebuild_loop_nothing_new:
  assumes "\<And>l proto ext ip intp.
             l \<in> set ls \<Longrightarrow> parse_line cfg l = Some (proto, ext, ip, intp) \<Longrightarrow>
             filter (\<lambda>r. container_ip r = ip \<and> external_port r = ext \<and> protocol r = proto)
               (port_mappings st) \<noteq> []"
  shows "rebuild_loop cfg ls k st = (k, st)"
  using assms
proof (induction ls)
  case Nil
  show ?case by simp
next
  case (Cons a ls)
  have rest: "rebuild_loop cfg ls k st = (k, st)"
    by (rule Cons.IH) (rule Cons.prems, simp_all)
  show ?case
  proof (cases "parse_line cfg a")
    case None
    with rest show ?thesis by (simp only: rebuild_loop_skip [OF None])
  next
    case (Some key)
    obtain proto ext ip intp where "key = (proto, ext, ip, intp)" by (cases key)
    with Some have pa: "parse_line cfg a = Some (proto, ext, ip, intp)" by simp
    have "filter (\<lambda>r. container_ip r = ip \<and> external_port r = ext \<and> protocol r = proto)
            (port_mappings st) \<noteq> []"
      by (rule Cons.prems [OF _ pa]) simp
    from rebuild_loop_old [OF pa this] rest show ?thesis by simp
  qed
qed

text \<open>
  Claim C8. Running \<open>rebuild_database\<close> a second time over the same \<open>iptables-save\<close>
  text inserts no row: it returns 0 and leaves the state exactly as the first run left
  it.
\<close>

theorem rebuild_database_idempotent:
  "rebuild_database cfg (snd (rebuild_database cfg st ls)) ls
     = (0, snd (rebuild_database cfg st ls))"
  unfolding rebuild_database_def
  by (rule rebuild_loop_nothing_new) (rule rebuild_loop_covers)

lemma rebuild_example:
  "rebuild_database example_config empty_state example_snapshot
   = (1, empty_state\<lparr>port_mappings :=
            [\<lparr>container_ip = ''10.0.0.5'', external_port = 50000, internal_port = 22,
              protocol = ''tcp'', temporary = False, description = None\<rparr>]\<rparr>)"
  by code_simp

text \<open>On the example snapshot the first run inserts one row, the second none.\<close>

theorem rebuild_database_idempotent_witness:
  "rebuild_database example_config empty_state example_snapshot
   = (1, empty_state\<lparr>port_mappings :=
            [\<lparr>container_ip = ''10.0.0.5'', external_port = 50000, internal_port = 22,
              protocol = ''tcp'', temporary = False, description = None\<rparr>]\<rparr>)
   \<and> rebuild_database example_config
       (empty_state\<lparr>port_mappings :=
            [\<lparr>container_ip = ''10.0.0.5'', external_port = 50000, internal_port = 22,
              protocol = ''tcp'', temporary = False, description = None\<rparr>]\<rparr>)
       example_snapshot
   = (0, empty_state\<lparr>port_mappings :=
            [\<lparr>container_ip = ''10.0.0.5'', external_port = 50000, internal_port = 22,
              protocol = ''tcp'', temporary = False, description = None\<rparr>]\<rparr>)"
proof -
  have "rebuild_database example_config
          (snd (rebuild_database example_config empty_state example_snapshot)) example_snapshot
        = (0, snd (rebuild_database example_config empty_state example_snapshot))"
    by (rule rebuild_database_idempotent)
  then have "rebuild_database example_config
       (empty_state\<lparr>port_mappings :=
            [\<lparr>container_ip = ''10.0.0.5'', external_port = 50000, internal_port = 22,
              protocol = ''tcp'', temporary = False, description = None\<rparr>]\<rparr>)
       example_snapshot
   = (0, empty_state\<lparr>port_mappings :=
            [\<lparr>container_ip = ''10.0.0.5'', external_port = 50000, internal_port = 22,
              protocol = ''tcp'', temporary = False, description = None\<rparr>]\<rparr>)"
    unfolding rebuild_example snd_conv .
  with rebuild_example show ?thesis by (intro conjI)
qed

subsection \<open>Rows inserted for allocated ports\<close>

lemma external_port_new_row: "external_port (new_row ip desc t) = fst t"
  by (cases t) (simp add: new_row_def)

lemma distinct_map_pair: "distinct (map f xs) \<Longrightarrow> distinct (map (\<lambda>x. (f x, g x)) xs)"
  by (induction xs) auto

text \<open>
  Whatever the outcome, a call that binds the allocator's ports appends rows whose
  external ports are pairwise different and were neither assigned, in use nor reserved.
\<close>

lemma allocated_rows_fresh:
  assumes a: "assign_ports cfg h st n = Some ps"
    and b: "bind_ports cfg h st ip mode n ps ints protos temp desc = (out, st')"
  shows "\<exists>new. port_mappings st' = port_mappings st @ new
           \<and> reserved_ports st' = reserved_ports st
           \<and> distinct (map external_port new)
           \<and> (\<forall>r\<in>set new. \<not> port_conflict h st (external_port r))"
proof (cases out)
  case (Inl e)
  with bind_ports_Inl [of cfg h st ip mode n ps ints protos temp desc e st'] b
  show ?thesis by (intro exI [of _ "[]"]) simp
next
  case (Inr ts)
  with b have b': "bind_ports cfg h st ip mode n ps ints protos temp desc = (Inr ts, st')"
    by simp
  from bind_ports_Inr [OF b'] obtain "is" pl where ts: "ts = zip ps (zip is pl)" by blast
  let ?new = "if temp then [] else map (new_row ip desc) ts"
  have ext: "external_port \<circ> new_row ip desc = fst"
    by (rule ext) (simp add: external_port_new_row)
  have "distinct (map fst ts)"
    using assign_ports_distinct [OF a] by (simp add: ts map_fst_zip_take)
  then have d: "distinct (map external_port ?new)" by (simp add: ext)
  have f: "\<forall>r\<in>set ?new. \<not> port_conflict h st (external_port r)"
  proof
    fix r assume "r \<in> set ?new"
    then obtain t where t: "t \<in> set ts" and r: "r = new_row ip desc t"
      by (auto split: if_splits)
    obtain e x where tx: "t = (e, x)" by (cases t)
    with t ts have "e \<in> set ps" by (auto dest: set_zip_leftD)
    then have "external_port r \<in> set ps" by (simp add: r tx external_port_new_row)
    with a show "\<not> port_conflict h st (external_port r)" by (rule assign_ports_no_conflict)
  qed
  from bind_ports_store [OF b'] d f show ?thesis by (intro exI [of _ ?new]) simp
qed

lemma add_container_allocated_rows:
  assumes "\<not> truthy exts"
    and "add_container cfg h st ip mode n ints exts protos temp desc = Some (out, st')"
  shows "\<exists>new. port_mappings st' = port_mappings st @ new
           \<and> reserved_ports st' = reserved_ports st
           \<and> distinct (map external_port new)
           \<and> (\<forall>r\<in>set new. \<not> port_conflict h st (external_port r))"
proof (rule add_container_cases [OF assms(2)])
  fix m assume "out = Inl (ValueError m)" "st' = st"
  then show ?thesis by (intro exI [of _ "[]"]) simp
next
  fix ps n'
  assume b: "bind_ports cfg h st ip mode n' ps ints protos temp desc = (out, st')"
    and "if truthy exts then ps = the_list exts \<and> n' = int (length ps)
         else assign_ports cfg h st n = Some ps \<and> n' = n"
  with assms(1) have "assign_ports cfg h st n = Some ps" "n' = n" by simp_all
  with b show ?thesis by (auto intro: allocated_rows_fresh)
qed

subsection \<open>Uniqueness of (external\_port, protocol)\<close>

text \<open>
  Claim C1, as amended. If no two rows of the store share their (external\_port,
  protocol) pair, then after any \<open>add_container\<close> call that leaves the choice of the
  external ports to the allocator (no explicit external ports), whatever its outcome,
  still no two rows do. The empty store has the property.
\<close>

theorem add_container_allocated_unique_pairs:
  assumes "unique_pairs st" and "\<not> truthy exts"
    and "add_container cfg h st ip mode n ints exts protos temp desc = Some (out, st')"
  shows "unique_pairs st'"
proof -
  from add_container_allocated_rows [OF assms(2,3)] obtain new where
    rows: "port_mappings st' = port_mappings st @ new"
    and d: "distinct (map external_port new)"
    and f: "\<forall>r\<in>set new. \<not> port_conflict h st (external_port r)" by blast
  let ?pair = "\<lambda>r. (external_port r, protocol r)"
  have "distinct (map ?pair new)" using d by (rule distinct_map_pair)
  moreover have "set (map ?pair (port_mappings st)) \<inter> set (map ?pair new) = {}"
  proof (rule ccontr)
    assume "set (map ?pair (port_mappings st)) \<inter> set (map ?pair new) \<noteq> {}"
    then obtain r r' where "r \<in> set (port_mappings st)" "r' \<in> set new"
      "external_port r = external_port r'" by auto
    then have "external_port r' \<in> set (map external_port (port_mappings st))"
      by (metis image_eqI set_map)
    then have "port_conflict h st (external_port r')"
      by (simp only: port_conflict_def simp_thms)
    with f \<open>r' \<in> set new\<close> show False by blast
  qed
  ultimately show ?thesis using assms(1) by (simp add: unique_pairs_def rows)
qed

lemma quiet_assign_ports_2:
  "assign_ports example_config quiet_host empty_state 2 = Some [50000, 50001]"
proof -
  have "\<not> block_conflict quiet_host empty_state 50000 2"
    by (simp add: block_conflict_iff port_conflict_def quiet_host_not_in_use empty_state_def)
  from find_block_stop [OF this] show ?thesis
    by (simp add: assign_ports_def example_config_def upt_rec)
qed

lemma quiet_add_container_2:
  "add_container example_config quiet_host empty_state ''10.0.0.5'' ''automatic'' 2
       None None None False None
     = Some (Inr [(50000, 22, ''tcp''), (50001, 80, ''tcp'')],
        \<lparr>port_mappings =
           [\<lparr>container_ip = ''10.0.0.5'', external_port = 50000, internal_port = 22,
             protocol = ''tcp'', temporary = False, description = None\<rparr>,
            \<lparr>container_ip = ''10.0.0.5'', external_port = 50001, internal_port = 80,
             protocol = ''tcp'', temporary = False, description = None\<rparr>],
         reserved_ports = [],
         nat_rules = [DNAT ''vmbr0'' ''tcp'' 50000 ''10.0.0.5'' 22,
                      DNAT ''vmbr0'' ''tcp'' 50001 ''10.0.0.5'' 80],
         ip_forward = True,
         rules_v4 = [DNAT ''vmbr0'' ''tcp'' 50000 ''10.0.0.5'' 22,
                     DNAT ''vmbr0'' ''tcp'' 50001 ''10.0.0.5'' 80]\<rparr>)"
proof -
  have "bind_ports example_config quiet_host empty_state ''10.0.0.5'' ''automatic'' 2
          [50000, 50001] None None False None
     = (Inr [(50000, 22, ''tcp''), (50001, 80, ''tcp'')],
        \<lparr>port_mappings =
           [\<lparr>container_ip = ''10.0.0.5'', external_port = 50000, internal_port = 22,
             protocol = ''tcp'', temporary = False, description = None\<rparr>,
            \<lparr>container_ip = ''10.0.0.5'', external_port = 50001, internal_port = 80,
             protocol = ''tcp'', temporary = False, description = None\<rparr>],
         reserved_ports = [],
         nat_rules = [DNAT ''vmbr0'' ''tcp'' 50000 ''10.0.0.5'' 22,
                      DNAT ''vmbr0'' ''tcp'' 50001 ''10.0.0.5'' 80],
         ip_forward = True,
         rules_v4 = [DNAT ''vmbr0'' ''tcp'' 50000 ''10.0.0.5'' 22,
                     DNAT ''vmbr0'' ''tcp'' 50001 ''10.0.0.5'' 80]\<rparr>)"
    by code_simp
  moreover have "add_container example_config quiet_host empty_state ''10.0.0.5'' ''automatic'' 2
                   None None None False None
                 = Some (bind_ports example_config quiet_host empty_state ''10.0.0.5''
                           ''automatic'' 2 [50000, 50001] None None False None)"
    by (rule add_container_allocated [OF valid_10_0_0_5 _ _ quiet_assign_ports_2])
      (simp_all add: empty_state_def truthy_def)
  ultimately show ?thesis by simp
qed

theorem add_container_allocated_unique_pairs_witness:
  "unique_pairs empty_state \<and> \<not> truthy (None :: int list option)
   \<and> unique_pairs
        \<lparr>port_mappings =
           [\<lparr>container_ip = ''10.0.0.5'', external_port = 50000, internal_port = 22,
             protocol = ''tcp'', temporary = False, description = None\<rparr>,
            \<lparr>container_ip = ''10.0.0.5'', external_port = 50001, internal_port = 80,
             protocol = ''tcp'', temporary = False, description = None\<rparr>],
         reserved_ports = [],
         nat_rules = [DNAT ''vmbr0'' ''tcp'' 50000 ''10.0.0.5'' 22,
                      DNAT ''vmbr0'' ''tcp'' 50001 ''10.0.0.5'' 80],
         ip_forward = True,
         rules_v4 = [DNAT ''vmbr0'' ''tcp'' 50000 ''10.0.0.5'' 22,
                     DNAT ''vmbr0'' ''tcp'' 50001 ''10.0.0.5'' 80]\<rparr>"
proof -
  have 1: "unique_pairs empty_state" by (simp add: unique_pairs_def empty_state_def)
  have 2: "\<not> truthy (None :: int list option)" by (simp add: truthy_def)
  from 1 2 add_container_allocated_unique_pairs [OF 1 2 quiet_add_container_2]
  show ?thesis by (intro conjI)
qed

text \<open>
  Claim C1 as it is written fails on each of the other three paths. Explicit external
  ports are bound as given: after 10.0.0.5 holds 50000/tcp, a second call gives
  50000/tcp to 10.0.0.6 as well. \<open>import_mappings\<close> looks for the pair (container\_ip,
  external\_port) only, and \<open>rebuild_database\<close> for (container\_ip, external\_port,
  protocol), so both insert the same port and protocol for a second container.
\<close>

theorem unique_pairs_counterexample:
  "add_container example_config quiet_host empty_state ''10.0.0.5'' ''automatic'' 1
       None (Some [50000]) None False None
     = Some (Inr [(50000, 22, ''tcp'')], held_state)
   \<and> unique_pairs held_state
   \<and> map_option (\<lambda>r. (fst r, unique_pairs (snd r)))
        (add_container example_config quiet_host held_state ''10.0.0.6'' ''automatic'' 1
           None (Some [50000]) None False None)
      = Some (Inr [(50000, 22, ''tcp'')], False)
   \<and> fst (import_mappings example_config quiet_host held_state
             [Entry ''10.0.0.6'' 50000 22 None None]) = Inr 1
   \<and> \<not> unique_pairs (snd (import_mappings example_config quiet_host held_state
                              [Entry ''10.0.0.6'' 50000 22 None None]))
   \<and> fst (rebuild_database example_config empty_state clashing_snapshot) = 2
   \<and> \<not> unique_pairs (snd (rebuild_database example_config empty_state clashing_snapshot))"
proof -
  have t: "truthy (Some [50000 :: int])" by (simp add: truthy_def)
  have l: "the_list (Some [50000 :: int]) = [50000]" by (simp add: the_list_def)
  have b1: "bind_ports example_config quiet_host empty_state ''10.0.0.5'' ''automatic'' 1
              [50000] None None False None = (Inr [(50000, 22, ''tcp'')], held_state)"
    by code_simp
  have "add_container example_config quiet_host empty_state ''10.0.0.5'' ''automatic'' 1
          None (Some [50000]) None False None
        = Some (bind_ports example_config quiet_host empty_state ''10.0.0.5'' ''automatic''
                  (int (length (the_list (Some [50000 :: int])))) (the_list (Some [50000]))
                  None None False None)"
    by (rule add_container_explicit [OF valid_10_0_0_5 _ t]) (simp add: empty_state_def)
  with b1 have 1: "add_container example_config quiet_host empty_state ''10.0.0.5''
                     ''automatic'' 1 None (Some [50000]) None False None
                   = Some (Inr [(50000, 22, ''tcp'')], held_state)"
    by (simp add: l)
  have 2: "unique_pairs held_state" by code_simp
  have b2: "(fst (bind_ports example_config quiet_host held_state ''10.0.0.6'' ''automatic'' 1
                    [50000] None None False None),
             unique_pairs (snd (bind_ports example_config quiet_host held_state ''10.0.0.6''
                    ''automatic'' 1 [50000] None None False None)))
            = (Inr [(50000, 22, ''tcp'')], False)"
    by code_simp
  have "add_container example_config quiet_host held_state ''10.0.0.6'' ''automatic'' 1
          None (Some [50000]) None False None
        = Some (bind_ports example_config quiet_host held_state ''10.0.0.6'' ''automatic''
                  (int (length (the_list (Some [50000 :: int])))) (the_list (Some [50000]))
                  None None False None)"
    by (rule add_container_explicit [OF valid_10_0_0_6 _ t]) (simp add: held_state_def)
  with b2 have 3: "map_option (\<lambda>r. (fst r, unique_pairs (snd r)))
        (add_container example_config quiet_host held_state ''10.0.0.6'' ''automatic'' 1
           None (Some [50000]) None False None)
      = Some (Inr [(50000, 22, ''tcp'')], False)"
    by (simp add: l)
  have 4: "fst (import_mappings example_config quiet_host held_state
             [Entry ''10.0.0.6'' 50000 22 None None]) = Inr 1"
    by code_simp
  have 5: "\<not> unique_pairs (snd (import_mappings example_config quiet_host held_state
                              [Entry ''10.0.0.6'' 50000 22 None None]))"
    by code_simp
  have 6: "fst (rebuild_database example_config empty_state clashing_snapshot) = 2"
    by code_simp
  have 7: "\<not> unique_pairs (snd (rebuild_database example_config empty_state clashing_snapshot))"
    by code_simp
  from 1 2 3 4 5 6 7 show ?thesis by (intro conjI)
qed

subsection \<open>Reserved ports\<close>

text \<open>
  Claim C5, as amended. In every state the allocator returns, and no port it returns is
  reserved. An \<open>add_container\<close> call without explicit external ports, whatever its
  outcome, leaves the reserved set as it was and appends only rows whose external port
  is not reserved; so if no row of the store had a reserved external port before the
  call, none has after it.
\<close>

theorem add_container_allocated_avoids_reserved:
  "(\<exists>ps. assign_ports cfg h st n = Some ps
        \<and> (\<forall>p\<in>set ps. p \<notin> set (map fst (reserved_ports st))))
   \<and> (\<not> truthy exts \<longrightarrow>
        add_container cfg h st ip mode n ints exts protos temp desc = Some (out, st') \<longrightarrow>
          reserved_ports st' = reserved_ports st
          \<and> (\<exists>new. port_mappings st' = port_mappings st @ new
                 \<and> (\<forall>r\<in>set new. external_port r \<notin> set (map fst (reserved_ports st'))))
          \<and> (no_reserved_row st \<longrightarrow> no_reserved_row st'))"
proof (intro conjI impI)
  from assign_ports_total obtain ps where ps: "assign_ports cfg h st n = Some ps" by blast
  have "\<forall>p\<in>set ps. p \<notin> set (map fst (reserved_ports st))"
    using assign_ports_no_conflict [OF ps] by (auto simp: port_conflict_def)
  with ps show "\<exists>ps. assign_ports cfg h st n = Some ps
             \<and> (\<forall>p\<in>set ps. p \<notin> set (map fst (reserved_ports st)))" by blast
next
  assume e: "\<not> truthy exts"
    and c: "add_container cfg h st ip mode n ints exts protos temp desc = Some (out, st')"
  from add_container_allocated_rows [OF e c] obtain new where
    rows: "port_mappings st' = port_mappings st @ new"
    and res: "reserved_ports st' = reserved_ports st"
    and f: "\<forall>r\<in>set new. \<not> port_conflict h st (external_port r)" by blast
  from f have fresh: "\<forall>r\<in>set new. external_port r \<notin> set (map fst (reserved_ports st))"
    by (auto simp: port_conflict_def)
  show "reserved_ports st' = reserved_ports st" by (rule res)
  from rows fresh res
  show "\<exists>new. port_mappings st' = port_mappings st @ new
          \<and> (\<forall>r\<in>set new. external_port r \<notin> set (map fst (reserved_ports st')))"
    by (intro exI [of _ new]) simp
  assume "no_reserved_row st"
  with fresh show "no_reserved_row st'"
    by (auto simp: no_reserved_row_def rows res list_all_iff)
qed

lemma reserving_assign_ports_2:
  "assign_ports example_config quiet_host reserving_state 2 = Some [50002, 50003]"
proof -
  have c: "block_conflict quiet_host reserving_state 50000 2"
    by (simp add: block_conflict_2 port_conflict_def reserving_state_def)
  have f: "\<not> block_conflict quiet_host reserving_state 50002 2"
    by (simp add: block_conflict_2 port_conflict_def quiet_host_not_in_use reserving_state_def)
  have "find_block quiet_host reserving_state 2 50000 = find_block quiet_host reserving_state 2 50002"
    using find_block_step [OF c] by simp
  also have "\<dots> = Some 50002" using find_block_stop [OF f] by simp
  finally show ?thesis by (simp add: assign_ports_def example_config_def upt_rec)
qed

lemma reserving_add_container_2:
  "add_container example_config quiet_host reserving_state ''10.0.0.5'' ''automatic'' 2
       None None None False None
     = Some (Inr [(50002, 22, ''tcp''), (50003, 80, ''tcp'')],
        \<lparr>port_mappings =
           [\<lparr>container_ip = ''10.0.0.5'', external_port = 50002, internal_port = 22,
             protocol = ''tcp'', temporary = False, description = None\<rparr>,
            \<lparr>container_ip = ''10.0.0.5'', external_port = 50003, internal_port = 80,
             protocol = ''tcp'', temporary = False, description = None\<rparr>],
         reserved_ports = [(50000, None)],
         nat_rules = [DNAT ''vmbr0'' ''tcp'' 50002 ''10.0.0.5'' 22,
                      DNAT ''vmbr0'' ''tcp'' 50003 ''10.0.0.5'' 80],
         ip_forward = True,
         rules_v4 = [DNAT ''vmbr0'' ''tcp'' 50002 ''10.0.0.5'' 22,
                     DNAT ''vmbr0'' ''tcp'' 50003 ''10.0.0.5'' 80]\<rparr>)"
proof -
  have "bind_ports example_config quiet_host reserving_state ''10.0.0.5'' ''automatic'' 2
          [50002, 50003] None None False None
     = (Inr [(50002, 22, ''tcp''), (50003, 80, ''tcp'')],
        \<lparr>port_mappings =
           [\<lparr>container_ip = ''10.0.0.5'', external_port = 50002, internal_port = 22,
             protocol = ''tcp'', temporary = False, description = None\<rparr>,
            \<lparr>container_ip = ''10.0.0.5'', external_port = 50003, internal_port = 80,
             protocol = ''tcp'', temporary = False, description = None\<rparr>],
         reserved_ports = [(50000, None)],
         nat_rules = [DNAT ''vmbr0'' ''tcp'' 50002 ''10.0.0.5'' 22,
                      DNAT ''vmbr0'' ''tcp'' 50003 ''10.0.0.5'' 80],
         ip_forward = True,
         rules_v4 = [DNAT ''vmbr0'' ''tcp'' 50002 ''10.0.0.5'' 22,
                     DNAT ''vmbr0'' ''tcp'' 50003 ''10.0.0.5'' 80]\<rparr>)"
    by code_simp
  moreover have "add_container example_config quiet_host reserving_state ''10.0.0.5''
                   ''automatic'' 2 None None None False None
                 = Some (bind_ports example_config quiet_host reserving_state ''10.0.0.5''
                           ''automatic'' 2 [50002, 50003] None None False None)"
    by (rule add_container_allocated [OF valid_10_0_0_5 _ _ reserving_assign_ports_2])
      (simp_all add: reserving_state_def truthy_def)
  ultimately show ?thesis by simp
qed

text \<open>
  With port 50000 reserved, the block at 50000 is skipped and 50002, 50003 are bound.
\<close>

theorem add_container_allocated_avoids_reserved_witness:
  "no_reserved_row reserving_state \<and> \<not> truthy (None :: int list option)
   \<and> assign_ports example_config quiet_host reserving_state 2 = Some [50002, 50003]
   \<and> add_container example_config quiet_host reserving_state ''10.0.0.5'' ''automatic'' 2
       None None None False None
     = Some (Inr [(50002, 22, ''tcp''), (50003, 80, ''tcp'')],
        \<lparr>port_mappings =
           [\<lparr>container_ip = ''10.0.0.5'', external_port = 50002, internal_port = 22,
             protocol = ''tcp'', temporary = False, description = None\<rparr>,
            \<lparr>container_ip = ''10.0.0.5'', external_port = 50003, internal_port = 80,
             protocol = ''tcp'', temporary = False, description = None\<rparr>],
         reserved_ports = [(50000, None)],
         nat_rules = [DNAT ''vmbr0'' ''tcp'' 50002 ''10.0.0.5'' 22,
                      DNAT ''vmbr0'' ''tcp'' 50003 ''10.0.0.5'' 80],
         ip_forward = True,
         rules_v4 = [DNAT ''vmbr0'' ''tcp'' 50002 ''10.0.0.5'' 22,
                     DNAT ''vmbr0'' ''tcp'' 50003 ''10.0.0.5'' 80]\<rparr>)
   \<and> no_reserved_row
        \<lparr>port_mappings =
           [\<lparr>container_ip = ''10.0.0.5'', external_port = 50002, internal_port = 22,
             protocol = ''tcp'', temporary = False, description = None\<rparr>,
            \<lparr>container_ip = ''10.0.0.5'', external_port = 50003, internal_port = 80,
             protocol = ''tcp'', temporary = False, description = None\<rparr>],
         reserved_ports = [(50000, None)],
         nat_rules = [DNAT ''vmbr0'' ''tcp'' 50002 ''10.0.0.5'' 22,
                      DNAT ''vmbr0'' ''tcp'' 50003 ''10.0.0.5'' 80],
         ip_forward = True,
         rules_v4 = [DNAT ''vmbr0'' ''tcp'' 50002 ''10.0.0.5'' 22,
                     DNAT ''vmbr0'' ''tcp'' 50003 ''10.0.0.5'' 80]\<rparr>"
proof -
  have 1: "no_reserved_row reserving_state"
    by (simp add: no_reserved_row_def reserving_state_def)
  have 2: "\<not> truthy (None :: int list option)" by (simp add: truthy_def)
  from add_container_allocated_avoids_reserved
    [of example_config quiet_host reserving_state 2 None "''10.0.0.5''" "''automatic''"
        None None False None] 1 2 reserving_add_container_2
  have "no_reserved_row
        \<lparr>port_mappings =
           [\<lparr>container_ip = ''10.0.0.5'', external_port = 50002, internal_port = 22,
             protocol = ''tcp'', temporary = False, description = None\<rparr>,
            \<lparr>container_ip = ''10.0.0.5'', external_port = 50003, internal_port = 80,
             protocol = ''tcp'', temporary = False, description = None\<rparr>],
         reserved_ports = [(50000, None)],
         nat_rules = [DNAT ''vmbr0'' ''tcp'' 50002 ''10.0.0.5'' 22,
                      DNAT ''vmbr0'' ''tcp'' 50003 ''10.0.0.5'' 80],
         ip_forward = True,
         rules_v4 = [DNAT ''vmbr0'' ''tcp'' 50002 ''10.0.0.5'' 22,
                     DNAT ''vmbr0'' ''tcp'' 50003 ''10.0.0.5'' 80]\<rparr>"
    by blast
  with 1 2 reserving_assign_ports_2 reserving_add_container_2 show ?thesis by (intro conjI)
qed

text \<open>
  Claim C5 as it is written fails on each of the other three paths: with port 50000
  reserved, explicit external ports, \<open>import_mappings\<close> and \<open>rebuild_database\<close> each
  insert a row whose external port is 50000. None of them reads \<open>reserved_ports\<close>.
\<close>

theorem reserved_port_counterexample:
  "no_reserved_row reserving_state
   \<and> map_option (\<lambda>r. (fst r, no_reserved_row (snd r)))
        (add_container example_config quiet_host reserving_state ''10.0.0.5'' ''automatic'' 1
           None (Some [50000]) None False None)
      = Some (Inr [(50000, 22, ''tcp'')], False)
   \<and> fst (import_mappings example_config quiet_host reserving_state
             [Entry ''10.0.0.5'' 50000 22 None None]) = Inr 1
   \<and> \<not> no_reserved_row (snd (import_mappings example_config quiet_host reserving_state
                                [Entry ''10.0.0.5'' 50000 22 None None]))
   \<and> fst (rebuild_database example_config reserving_state example_snapshot) = 1
   \<and> \<not> no_reserved_row (snd (rebuild_database example_config reserving_state example_snapshot))"
proof -
  have t: "truthy (Some [50000 :: int])" by (simp add: truthy_def)
  have l: "the_list (Some [50000 :: int]) = [50000]" by (simp add: the_list_def)
  have 1: "no_reserved_row reserving_state"
    by (simp add: no_reserved_row_def reserving_state_def)
  have b: "(fst (bind_ports example_config quiet_host reserving_state ''10.0.0.5'' ''automatic''
                   1 [50000] None None False None),
            no_reserved_row (snd (bind_ports example_config quiet_host reserving_state
                   ''10.0.0.5'' ''automatic'' 1 [50000] None None False None)))
           = (Inr [(50000, 22, ''tcp'')], False)"
    by code_simp
  have "add_container example_config quiet_host reserving_state ''10.0.0.5'' ''automatic'' 1
          None (Some [50000]) None False None
        = Some (bind_ports example_config quiet_host reserving_state ''10.0.0.5'' ''automatic''
                  (int (length (the_list (Some [50000 :: int])))) (the_list (Some [50000]))
                  None None False None)"
    by (rule add_container_explicit [OF valid_10_0_0_5 _ t]) (simp add: reserving_state_def)
  with b have 2: "map_option (\<lambda>r. (fst r, no_reserved_row (snd r)))
        (add_container example_config quiet_host reserving_state ''10.0.0.5'' ''automatic'' 1
           None (Some [50000]) None False None)
      = Some (Inr [(50000, 22, ''tcp'')], False)"
    by (simp add: l)
  have 3: "fst (import_mappings example_config quiet_host reserving_state
             [Entry ''10.0.0.5'' 50000 22 None None]) = Inr 1"
    by code_simp
  have 4: "\<not> no_reserved_row (snd (import_mappings example_config quiet_host reserving_state
                                [Entry ''10.0.0.5'' 50000 22 None None]))"
    by code_simp
  have 5: "fst (rebuild_database example_config reserving_state example_snapshot) = 1"
    by code_simp
  have 6: "\<not> no_reserved_row (snd (rebuild_database example_config reserving_state
                                       example_snapshot))"
    by code_simp
  from 1 2 3 4 5 6 show ?thesis by (intro conjI)
qed

end
